theory Spec2Isabelle
  imports Complex_Main "HOL-Library.Sublist"
begin

section \<open>JavaScript values, strings and exceptions\<close>

text \<open>
  Strings are byte strings. \<open>String.prototype.includes\<close> is the contiguous-substring
  test. \<open>toLowerCase\<close> is modelled on the ASCII letters, which is all the three
  lower-case ASCII keywords searched for in \<open>sendGroups\<close> can observe.
\<close>

definition str_includes :: "string \<Rightarrow> string \<Rightarrow> bool" where
  "str_includes s needle = sublist needle s"

definition lowerChar :: "char \<Rightarrow> char" where
  "lowerChar c =
     (let n = (of_char c :: nat) in if 65 \<le> n \<and> n \<le> 90 then char_of (n + 32) else c)"

definition toLowerCase :: "string \<Rightarrow> string" where
  "toLowerCase s = map lowerChar s"

text \<open>
  A thrown or reported JavaScript value, as far as \<open>stringifyErr\<close> and the catch
  clauses look at it: \<open>null\<close>, \<open>undefined\<close>, a string, or any other value (an
  \<open>Error\<close>, the error object of an RPC answer), which is truthy and of which the model
  keeps its \<open>message\<close> property (when it has one that is not nullish, as a string),
  what \<open>JSON.stringify\<close> does on it, and what \<open>String(...)\<close> gives.
\<close>

datatype JsonResult = JsonThrows | JsonText string

datatype jsval =
    JNull
  | JUndefined
  | JStr string
  | JOther "string option" JsonResult string

text \<open>\<open>new Error(msg)\<close>.\<close>

definition mkError :: "string \<Rightarrow> jsval" where
  "mkError msg = JOther (Some msg) (JsonText ''{}'') (''Error: '' @ msg)"

text \<open>Truthiness of a value, as \<open>if (sim.value.err)\<close> tests it.\<close>

fun truthy :: "jsval \<Rightarrow> bool" where
  "truthy JNull = False"
| "truthy JUndefined = False"
| "truthy (JStr s) = (s \<noteq> [])"
| "truthy (JOther m j s) = True"

text \<open>\<open>stringifyErr\<close>, lines 65-76 of hooks/use-burn-nfts.ts.\<close>

fun stringifyErr :: "jsval \<Rightarrow> string" where
  "stringifyErr JNull = []"
| "stringifyErr JUndefined = []"
| "stringifyErr (JStr s) = s"
| "stringifyErr (JOther m j s) =
     (if (case m of Some msg \<Rightarrow> msg \<noteq> [] | None \<Rightarrow> False) then the m
      else (case j of JsonText t \<Rightarrow> t | JsonThrows \<Rightarrow> s))"

text \<open>\<open>isTooLargeErr\<close>, lines 78-88.\<close>

definition isTooLargeErr :: "jsval \<Rightarrow> bool" where
  "isTooLargeErr err =
     (let s = stringifyErr err in
        str_includes s ''VersionedTransaction too large'' \<or>
        str_includes s ''solana_transaction::versioned::VersionedTransaction too large'' \<or>
        str_includes s ''transaction too large'' \<or>
        str_includes s ''Transaction too large'' \<or>
        str_includes s ''packet too large'' \<or>
        str_includes s ''encoded/raw'')"

text \<open>\<open>e?.message ?? 'unknown'\<close> of the catch clauses of \<open>mutateAsync\<close>.\<close>

fun messageOrUnknown :: "jsval \<Rightarrow> string" where
  "messageOrUnknown (JOther (Some msg) j s) = msg"
| "messageOrUnknown e = ''unknown''"

text \<open>\<open>e?.message ?? String(e)\<close> of the catch clause of \<open>sendGroups\<close>.\<close>

fun messageOrString :: "jsval \<Rightarrow> string" where
  "messageOrString JNull = ''null''"
| "messageOrString JUndefined = ''undefined''"
| "messageOrString (JStr s) = s"
| "messageOrString (JOther (Some msg) j s) = msg"
| "messageOrString (JOther None j s) = s"

text \<open>\<open>a ?? b\<close> on optional values, and the truthiness of an optional string.\<close>

definition orElse :: "'a option \<Rightarrow> 'a option \<Rightarrow> 'a option" where
  "orElse a b = (case a of Some x \<Rightarrow> Some x | None \<Rightarrow> b)"

definition truthyStr :: "string option \<Rightarrow> bool" where
  "truthyStr x = (case x of Some s \<Rightarrow> s \<noteq> [] | None \<Rightarrow> False)"

section \<open>Asynchronous functions: a world state and thrown values\<close>

text \<open>
  An async function of the source is a function from the state it runs in to what it
  did (\<open>Inl e\<close>: it threw \<open>e\<close>; \<open>Inr a\<close>: it returned \<open>a\<close>) and the state it
  left. \<open>bindE\<close> is \<open>await\<close> followed by the rest of the body, \<open>tryCatch\<close> is
  \<open>try { ... } catch (e) { ... }\<close>, \<open>liftE\<close> a synchronous call that may throw.
  Console output is not part of the model.
\<close>

type_synonym ('a, 's) io = "'s \<Rightarrow> (jsval + 'a) \<times> 's"

definition returnE :: "'a \<Rightarrow> ('a, 's) io" where
  "returnE a s = (Inr a, s)"

definition throwE :: "jsval \<Rightarrow> ('a, 's) io" where
  "throwE e s = (Inl e, s)"

definition liftE :: "jsval + 'a \<Rightarrow> ('a, 's) io" where
  "liftE r s = (r, s)"

definition bindE :: "('a, 's) io \<Rightarrow> ('a \<Rightarrow> ('b, 's) io) \<Rightarrow> ('b, 's) io" where
  "bindE m f s = (case m s of (Inl e, s') \<Rightarrow> (Inl e, s') | (Inr a, s') \<Rightarrow> f a s')"

definition tryCatch :: "('a, 's) io \<Rightarrow> (jsval \<Rightarrow> ('a, 's) io) \<Rightarrow> ('a, 's) io" where
  "tryCatch m h s = (case m s of (Inl e, s') \<Rightarrow> h e s' | (Inr a, s') \<Rightarrow> (Inr a, s'))"

section \<open>hooks/use-burn-nfts.ts: data\<close>

text \<open>A \<open>PublicKey\<close> is its base58 text, so \<open>toBase58\<close> and \<open>umiPk\<close> are the identity.\<close>

type_synonym PublicKey = string

definition TOKEN_PROGRAM_ID :: PublicKey where
  "TOKEN_PROGRAM_ID = ''TokenkegQfeZyiNwAJbNbGKPFXCWuBvf9Ss623VQ5DA''"

definition TOKEN_2022_PROGRAM_ID :: PublicKey where
  "TOKEN_2022_PROGRAM_ID = ''TokenzQdYGrDSDXi6MNLxwZenoJBNb8wDgib6A5nSJ8''"

datatype TransactionInstruction =
    SetComputeUnitLimit nat
  | SetComputeUnitPrice nat
  | BurnInstruction PublicKey PublicKey PublicKey nat PublicKey
  | CloseAccountInstruction PublicKey PublicKey PublicKey PublicKey
  | UmiInstruction string

record NftBurnItem =
  mint :: PublicKey
  tokenAccount :: "PublicKey option"
  isCompressed :: bool
  isPnftHint :: bool
  isCoreHint :: bool
  programIdHint :: "PublicKey option"
  frozenHint :: bool
  collectionMintHint :: "PublicKey option"

datatype Kind = Spl | Pnft | Core

record Group =
  g_mint :: PublicKey
  g_ixs :: "TransactionInstruction list"

record Prepared =
  p_mint :: PublicKey
  p_ixs :: "TransactionInstruction list"
  p_kind :: Kind

text \<open>\<open>SimResult\<close>: \<open>{ ok: true }\<close>, or \<open>{ ok: false; err; errStr?; logs? }\<close>.\<close>

datatype SimResult = SimOk | SimFail jsval "string option" "string list option"

record BurnOk =
  ok_mint :: string
  ok_sig :: string

record BurnSkip =
  skip_mint :: string
  reason :: string

record BurnBatchResult =
  ok :: "BurnOk list"
  skipped :: "BurnSkip list"

definition CB_UNITS :: nat where
  "CB_UNITS = 1000000"

definition PRIORITY_FEE_MICRO_LAMPORTS :: nat where
  "PRIORITY_FEE_MICRO_LAMPORTS = 20000"

section \<open>The libraries and the network, as the hook calls them\<close>

record AccountInfo =
  ai_owner :: PublicKey

record BlockhashCtx =
  ctx_slot :: nat
  ctx_blockhash :: string

record VersionedTransaction =
  payerKey :: PublicKey
  recentBlockhash :: string
  instructions :: "TransactionInstruction list"

text \<open>\<open>sim.value\<close> of \<open>connection.simulateTransaction\<close>.\<close>

record SimValue =
  sv_err :: jsval
  sv_logs :: "string list option"

text \<open>The input of Token Metadata's \<open>burnV1\<close> and \<open>unlockV1\<close>, as the hook fills it.\<close>

record TmInput =
  tm_mint :: PublicKey
  tm_tokenOwner :: PublicKey
  tm_token :: PublicKey
  tm_metadata :: PublicKey
  tm_edition :: "PublicKey option"
  tm_tokenRecord :: "PublicKey option"
  tm_collectionMint :: "PublicKey option"
  tm_collectionMetadata :: "PublicKey option"
  tm_authorizationRules :: "PublicKey option"
  tm_splTokenProgram :: "PublicKey option"

type_synonym CoreAsset = string
type_synonym CoreCollection = string

text \<open>
  What the hook gets from outside the repository: the wallet account, the RPC
  connection, the mobile wallet, and the builders of @solana/spl-token, mpl-core and
  mpl-token-metadata. A network call acts on the world state \<open>'w\<close> and may throw;
  a builder is a function that may throw. \<open>compileToV0Message\<close> gives the value
  thrown when the message cannot be compiled. \<open>umi_rpc_getAccount\<close> gives the
  truthiness of the value the promise resolves to. \<open>fetchMetadataRuleSet\<close> is the
  body of the inner \<open>try\<close> of \<open>buildPnftVariants\<close>: \<open>fetchMetadata\<close>, then the
  rule set of \<open>programmableConfig\<close> when it is truthy. The last argument of
  \<open>mobileSignAndSend\<close> says whether the options \<open>{ skipPreflight: true }\<close> are
  passed.
\<close>

record 'w Env =
  account_publicKey :: "PublicKey option"
  getAccountInfo :: "PublicKey \<Rightarrow> (AccountInfo option, 'w) io"
  getLatestBlockhashAndContext :: "string \<Rightarrow> (BlockhashCtx, 'w) io"
  compileToV0Message :: "VersionedTransaction \<Rightarrow> jsval option"
  simulateTransaction :: "VersionedTransaction \<Rightarrow> (SimValue, 'w) io"
  mobileSignAndSend :: "VersionedTransaction \<Rightarrow> nat \<Rightarrow> bool \<Rightarrow> (string, 'w) io"
  getAssociatedTokenAddress :: "PublicKey \<Rightarrow> PublicKey \<Rightarrow> PublicKey \<Rightarrow> jsval + PublicKey"
  coreFetchAsset :: "PublicKey \<Rightarrow> (CoreAsset, 'w) io"
  coreBurn :: "CoreAsset \<Rightarrow> CoreCollection option \<Rightarrow> jsval + TransactionInstruction list"
  coreCollectionAddress :: "CoreAsset \<Rightarrow> jsval + PublicKey option"
  coreFetchCollection :: "PublicKey \<Rightarrow> (CoreCollection, 'w) io"
  findMetadataPda :: "PublicKey \<Rightarrow> jsval + PublicKey"
  findMasterEditionPda :: "PublicKey \<Rightarrow> jsval + PublicKey"
  findTokenRecordPda :: "PublicKey \<Rightarrow> PublicKey \<Rightarrow> jsval + PublicKey"
  umi_rpc_getAccount :: "PublicKey \<Rightarrow> (bool, 'w) io"
  fetchMetadataRuleSet :: "PublicKey \<Rightarrow> (PublicKey option, 'w) io"
  burnV1 :: "TmInput \<Rightarrow> jsval + TransactionInstruction list"
  unlockV1 :: "TmInput \<Rightarrow> jsval + TransactionInstruction list"

section \<open>hooks/use-burn-nfts.ts: helpers\<close>

text \<open>The two compute-budget instructions put in front of every transaction.\<close>

definition budgetIxs :: "TransactionInstruction list" where
  "budgetIxs = [SetComputeUnitLimit CB_UNITS, SetComputeUnitPrice PRIORITY_FEE_MICRO_LAMPORTS]"

text \<open>\<open>getMintProgramId\<close>, lines 114-121.\<close>

definition getMintProgramId :: "'w Env \<Rightarrow> PublicKey \<Rightarrow> (PublicKey, 'w) io" where
  "getMintProgramId env mintPk =
     bindE (getAccountInfo env mintPk) (\<lambda>info.
       case info of
         None \<Rightarrow> throwE (mkError (''Mint not found: '' @ mintPk))
       | Some i \<Rightarrow>
           returnE (if ai_owner i = TOKEN_2022_PROGRAM_ID then TOKEN_2022_PROGRAM_ID
                    else TOKEN_PROGRAM_ID))"

text \<open>\<open>resolveAtaByMintProgram\<close>, lines 123-126.\<close>

definition resolveAtaByMintProgram ::
  "'w Env \<Rightarrow> PublicKey \<Rightarrow> PublicKey \<Rightarrow> PublicKey \<Rightarrow> (PublicKey \<times> PublicKey, 'w) io" where
  "resolveAtaByMintProgram env mintPk owner programId =
     bindE (liftE (getAssociatedTokenAddress env mintPk owner programId)) (\<lambda>ata.
       returnE (ata, programId))"

text \<open>
  \<open>new TransactionMessage({...}).compileToV0Message()\<close> and
  \<open>new VersionedTransaction(msg)\<close>.
\<close>

definition compileTx ::
  "'w Env \<Rightarrow> PublicKey \<Rightarrow> string \<Rightarrow> TransactionInstruction list \<Rightarrow> (VersionedTransaction, 'w) io" where
  "compileTx env owner bh ixs =
     (let tx = \<lparr>payerKey = owner, recentBlockhash = bh, instructions = ixs\<rparr>
      in case compileToV0Message env tx of Some e \<Rightarrow> throwE e | None \<Rightarrow> returnE tx)"

text \<open>The body of the \<open>try\<close> of \<open>simulateIxs\<close>, lines 131-146.\<close>

definition simulateTry ::
  "'w Env \<Rightarrow> PublicKey \<Rightarrow> TransactionInstruction list \<Rightarrow> (SimResult, 'w) io" where
  "simulateTry env owner ixs =
     bindE (getLatestBlockhashAndContext env ''processed'') (\<lambda>bh.
     bindE (compileTx env owner (ctx_blockhash bh) ixs) (\<lambda>tx.
     bindE (simulateTransaction env tx) (\<lambda>sim.
       if truthy (sv_err sim) then
         (let err = sv_err sim;
              logs = (case sv_logs sim of Some l \<Rightarrow> l | None \<Rightarrow> [])
          in returnE (SimFail err (Some (stringifyErr err)) (Some logs)))
       else returnE SimOk)))"

text \<open>\<open>simulateIxs\<close>, lines 128-154. The label goes to the console only.\<close>

definition simulateIxs ::
  "'w Env \<Rightarrow> PublicKey \<Rightarrow> TransactionInstruction list \<Rightarrow> string \<Rightarrow> (SimResult, 'w) io" where
  "simulateIxs env owner ixs label =
     tryCatch (simulateTry env owner ixs)
       (\<lambda>e. let eStr = stringifyErr e in returnE (SimFail e (Some eStr) None))"

section \<open>hooks/use-burn-nfts.ts: the builders\<close>

record CoreVariants =
  withCollection :: "TransactionInstruction list"
  withoutCollection :: "TransactionInstruction list"

text \<open>\<open>buildCoreBurnVariants\<close>, lines 158-189.\<close>

definition buildCoreBurnVariants ::
  "'w Env \<Rightarrow> PublicKey \<Rightarrow> PublicKey \<Rightarrow> (CoreVariants, 'w) io" where
  "buildCoreBurnVariants env owner assetId =
     bindE (coreFetchAsset env assetId) (\<lambda>asset.
     bindE (liftE (coreBurn env asset None)) (\<lambda>withoutC.
     bindE (tryCatch
              (bindE (liftE (coreCollectionAddress env asset)) (\<lambda>collAddr.
                 case collAddr of
                   None \<Rightarrow> returnE []
                 | Some ca \<Rightarrow>
                     bindE (coreFetchCollection env ca) (\<lambda>collection.
                       liftE (coreBurn env asset (Some collection)))))
              (\<lambda>e. returnE [])) (\<lambda>withC.
     returnE \<lparr>withCollection = withC, withoutCollection = withoutC\<rparr>)))"

record PnftVariants =
  burnOnly :: "TransactionInstruction list"
  unlockThenBurn :: "TransactionInstruction list"
  burnOnlyWithRules :: "TransactionInstruction list option"
  unlockThenBurnWithRules :: "TransactionInstruction list option"

text \<open>\<open>buildPnftVariants\<close>, lines 193-271.\<close>

definition buildPnftVariants ::
  "'w Env \<Rightarrow> PublicKey \<Rightarrow> PublicKey \<Rightarrow> PublicKey \<Rightarrow> PublicKey option
     \<Rightarrow> (PnftVariants option, 'w) io" where
  "buildPnftVariants env owner mintPk tokenAcct collectionMint =
     tryCatch
       (bindE (liftE (findMetadataPda env mintPk)) (\<lambda>metadata.
        bindE (liftE (findMasterEditionPda env mintPk)) (\<lambda>edition.
        bindE (liftE (findTokenRecordPda env mintPk tokenAcct)) (\<lambda>tokenRecord.
        bindE (tryCatch (umi_rpc_getAccount env tokenRecord) (\<lambda>e. returnE False)) (\<lambda>trAcc.
          if \<not> trAcc then returnE None
          else
            bindE (liftE (case collectionMint of
                            None \<Rightarrow> Inr None
                          | Some c \<Rightarrow> map_sum (\<lambda>e. e) Some (findMetadataPda env c)))
              (\<lambda>collMetadataPda.
            bindE (tryCatch (fetchMetadataRuleSet env mintPk) (\<lambda>e. returnE None)) (\<lambda>ruleSetU.
              let common = \<lparr>tm_mint = mintPk, tm_tokenOwner = owner, tm_token = tokenAcct,
                     tm_metadata = metadata, tm_edition = Some edition,
                     tm_tokenRecord = Some tokenRecord, tm_collectionMint = collectionMint,
                     tm_collectionMetadata = collMetadataPda, tm_authorizationRules = None,
                     tm_splTokenProgram = None\<rparr>;
                  makeBurn = (\<lambda>withRules. burnV1 env
                     (common\<lparr>tm_authorizationRules := (if withRules then ruleSetU else None)\<rparr>));
                  makeUnlock = unlockV1 env common
              in
                bindE (liftE (makeBurn False)) (\<lambda>burnOnly1.
                bindE (liftE makeUnlock) (\<lambda>u1.
                bindE (liftE (makeBurn False)) (\<lambda>b1.
                bindE (case ruleSetU of
                         None \<Rightarrow> returnE None
                       | Some rs \<Rightarrow> bindE (liftE (makeBurn True)) (\<lambda>b. returnE (Some b)))
                  (\<lambda>burnOnlyWithRules1.
                bindE (case ruleSetU of
                         None \<Rightarrow> returnE None
                       | Some rs \<Rightarrow>
                           bindE (liftE makeUnlock) (\<lambda>u2.
                           bindE (liftE (makeBurn True)) (\<lambda>b2. returnE (Some (u2 @ b2)))))
                  (\<lambda>unlockThenBurnWithRules1.
                returnE (Some \<lparr>burnOnly = burnOnly1, unlockThenBurn = u1 @ b1,
                                burnOnlyWithRules = burnOnlyWithRules1,
                                unlockThenBurnWithRules = unlockThenBurnWithRules1\<rparr>)))))))))))))
       (\<lambda>e. returnE None)"

text \<open>\<open>buildLegacyTmBurn\<close>, lines 274-330.\<close>

definition buildLegacyTmBurn ::
  "'w Env \<Rightarrow> PublicKey \<Rightarrow> PublicKey \<Rightarrow> PublicKey \<Rightarrow> PublicKey
     \<Rightarrow> (TransactionInstruction list option, 'w) io" where
  "buildLegacyTmBurn env owner mintPk tokenAcct tokenProgramId =
     tryCatch
       (bindE (liftE (findMetadataPda env mintPk)) (\<lambda>mdPda.
        bindE (getAccountInfo env mdPda) (\<lambda>mdAi.
          if mdAi = None then returnE None
          else
            bindE (liftE (findMasterEditionPda env mintPk)) (\<lambda>mePda.
            bindE (getAccountInfo env mePda) (\<lambda>meAi.
              let hasME = (meAi \<noteq> None);
                  maybeSplTokenProgram =
                    (if tokenProgramId = TOKEN_2022_PROGRAM_ID then Some TOKEN_2022_PROGRAM_ID
                     else None)
              in
                bindE (liftE (burnV1 env
                         \<lparr>tm_mint = mintPk, tm_tokenOwner = owner, tm_token = tokenAcct,
                          tm_metadata = mdPda,
                          tm_edition = (if hasME then Some mePda else None),
                          tm_tokenRecord = None, tm_collectionMint = None,
                          tm_collectionMetadata = None, tm_authorizationRules = None,
                          tm_splTokenProgram = maybeSplTokenProgram\<rparr>)) (\<lambda>ixs.
                returnE (Some (ixs @
                   [CloseAccountInstruction tokenAcct owner owner tokenProgramId]))))))))
       (\<lambda>e. returnE None)"

section \<open>hooks/use-burn-nfts.ts: sendGroups\<close>

text \<open>
  \<open>signAndSendTransaction\<close> of components/solana/use-wallet-ui.ts: the call with
  \<open>{ skipPreflight: true }\<close>, and on any exception the call without options.
\<close>

definition signAndSendTransaction ::
  "'w Env \<Rightarrow> VersionedTransaction \<Rightarrow> nat \<Rightarrow> (string, 'w) io" where
  "signAndSendTransaction env tx minContextSlot =
     tryCatch (mobileSignAndSend env tx minContextSlot True)
       (\<lambda>e. mobileSignAndSend env tx minContextSlot False)"

text \<open>The body of the \<open>try\<close> of \<open>sendGroups\<close> up to the signature, lines 373-386.\<close>

definition submitGroup ::
  "'w Env \<Rightarrow> PublicKey \<Rightarrow> TransactionInstruction list \<Rightarrow> (string, 'w) io" where
  "submitGroup env owner ixs =
     bindE (getLatestBlockhashAndContext env ''confirmed'') (\<lambda>ctx.
     bindE (compileTx env owner (ctx_blockhash ctx) ixs) (\<lambda>tx.
       signAndSendTransaction env tx (ctx_slot ctx)))"

text \<open>The test of the \<open>catch\<close> of \<open>sendGroups\<close>, lines 390-393.\<close>

definition isUserDecline :: "jsval \<Rightarrow> bool" where
  "isUserDecline e =
     (let msg = toLowerCase (messageOrString e)
      in str_includes msg ''reject'' \<or> str_includes msg ''denied'' \<or> str_includes msg ''cancel'')"

text \<open>The decimal text of a number, for the label \<open>batch(n)\<close>.\<close>

fun decimal :: "nat \<Rightarrow> string" where
  "decimal n =
     (if n < 10 then [char_of (48 + n)] else decimal (n div 10) @ [char_of (48 + n mod 10)])"

declare decimal.simps [simp del]

text \<open>
  Lines 342-346: the instructions of the transaction of a group, and the label its
  simulation is logged under.
\<close>

definition groupIxs :: "Group list \<Rightarrow> TransactionInstruction list" where
  "groupIxs grp = budgetIxs @ concat (map g_ixs grp)"

definition batchLabel :: "Group list \<Rightarrow> string" where
  "batchLabel grp = ''batch('' @ decimal (length grp) @ '')''"

text \<open>
  Lines 359-361: \<open>tooLarge\<close>, for a simulation that failed:
  \<open>isTooLargeErr(simRes.errStr ?? stringifyErr(simRes.err))\<close>.
\<close>

definition simTooLarge :: "SimResult \<Rightarrow> bool" where
  "simTooLarge simRes =
     (case simRes of
        SimOk \<Rightarrow> False
      | SimFail err errStr logs \<Rightarrow>
          isTooLargeErr (JStr (case errStr of Some s \<Rightarrow> s | None \<Rightarrow> stringifyErr err)))"

text \<open>\<open>group.slice(0, mid)\<close> and \<open>group.slice(mid)\<close> with \<open>mid = Math.floor(group.length / 2)\<close>.\<close>

definition splitHalves :: "'a list \<Rightarrow> 'a list \<times> 'a list" where
  "splitHalves grp = (let mid = length grp div 2 in (take mid grp, drop mid grp))"

text \<open>The weight of a queue, which every turn of the loop of \<open>sendGroups\<close> lowers.\<close>

definition queueWeight :: "'a list list \<Rightarrow> nat" where
  "queueWeight queue = sum_list (map (\<lambda>g. max 1 (2 * length g - 1)) queue)"

text \<open>
  The \<open>while (queue.length)\<close> loop of \<open>sendGroups\<close>, lines 339-398, on the local
  variables \<open>ok\<close> and \<open>queue\<close>.
\<close>

function sendGroupsLoop ::
  "'w Env \<Rightarrow> PublicKey \<Rightarrow> BurnOk list \<Rightarrow> Group list list \<Rightarrow> (BurnOk list, 'w) io" where
  "sendGroupsLoop env owner okAcc [] w = (Inr okAcc, w)"
| "sendGroupsLoop env owner okAcc (grp # queue) w =
     (let ixs = groupIxs grp in
      case simulateIxs env owner ixs (batchLabel grp) w of
        (Inl e, w1) \<Rightarrow> (Inl e, w1)
      | (Inr simRes, w1) \<Rightarrow>
          if simTooLarge simRes \<and> length grp > 1 then
            sendGroupsLoop env owner okAcc
              (fst (splitHalves grp) # snd (splitHalves grp) # queue) w1
          else
            (case submitGroup env owner ixs w1 of
               (Inr sig, w2) \<Rightarrow>
                 sendGroupsLoop env owner
                   (okAcc @ map (\<lambda>g. \<lparr>ok_mint = g_mint g, ok_sig = sig\<rparr>) grp) queue w2
             | (Inl e, w2) \<Rightarrow>
                 if isUserDecline e then sendGroupsLoop env owner okAcc queue w2
                 else (Inl e, w2)))"
  by pat_completeness auto
termination
proof (relation "measure (\<lambda>(env, owner, okAcc, queue, w). queueWeight queue)")
  show "wf (measure (\<lambda>(env, owner, okAcc, queue, w). queueWeight queue))"
    by simp
next
  fix env :: "'w Env" and owner okAcc and grp :: "Group list" and queue w ixs x1 w1 simRes
  assume "simTooLarge simRes \<and> 1 < length grp"
  then have "1 < length grp"
    by simp
  then have "max 1 (2 * (length grp div 2) - 1) + max 1 (2 * (length grp - length grp div 2) - 1)
               < max 1 (2 * length grp - 1)"
    by arith
  moreover from \<open>1 < length grp\<close> have "min (length grp) (length grp div 2) = length grp div 2"
    by simp
  ultimately show "((env, owner, okAcc, fst (splitHalves grp) # snd (splitHalves grp) # queue, w1),
              (env, owner, okAcc, grp # queue, w)) \<in>
             measure (\<lambda>(env, owner, okAcc, queue, w). queueWeight queue)"
    by (simp add: queueWeight_def splitHalves_def Let_def)
qed (auto simp: queueWeight_def max_def)

declare sendGroupsLoop.simps [simp del]

definition sendGroups ::
  "'w Env \<Rightarrow> PublicKey \<Rightarrow> Group list list \<Rightarrow> (BurnOk list, 'w) io" where
  "sendGroups env owner groups = sendGroupsLoop env owner [] groups"

section \<open>hooks/use-burn-nfts.ts: mutateAsync\<close>

text \<open>
  The state of one run of \<open>mutateAsync\<close>: the world, and the two arrays \<open>skipped\<close>
  and \<open>prepared\<close> that the loop over the items pushes to. A push that happened before
  an exception stays.
\<close>

record 'w RunState =
  world :: 'w
  st_skipped :: "BurnSkip list"
  st_prepared :: "Prepared list"

definition liftW :: "('a, 'w) io \<Rightarrow> ('a, 'w RunState) io" where
  "liftW m s = (case m (world s) of (r, w') \<Rightarrow> (r, s\<lparr>world := w'\<rparr>))"

definition pushSkipped :: "BurnSkip \<Rightarrow> (unit, 'w RunState) io" where
  "pushSkipped x s = (Inr (), s\<lparr>st_skipped := st_skipped s @ [x]\<rparr>)"

definition pushPrepared :: "Prepared \<Rightarrow> (unit, 'w RunState) io" where
  "pushPrepared x s = (Inr (), s\<lparr>st_prepared := st_prepared s @ [x]\<rparr>)"

text \<open>The native-registry (Core) branch, lines 424-447.\<close>

definition coreBranch :: "'w Env \<Rightarrow> PublicKey \<Rightarrow> NftBurnItem \<Rightarrow> (unit, 'w RunState) io" where
  "coreBranch env owner it =
     tryCatch
       (bindE (liftW (buildCoreBurnVariants env owner (mint it))) (\<lambda>v.
          let chosen = (if withCollection v \<noteq> [] then withCollection v else withoutCollection v)
          in if chosen = [] then
               pushSkipped \<lparr>skip_mint = mint it, reason = ''core burn: no viable instructions''\<rparr>
             else
               bindE (liftW (simulateIxs env owner (budgetIxs @ chosen) ''core-pick'')) (\<lambda>sim.
                 pushPrepared \<lparr>p_mint = mint it, p_ixs = chosen, p_kind = Core\<rparr>)))
       (\<lambda>e. pushSkipped
          \<lparr>skip_mint = mint it, reason = ''core build failed: '' @ messageOrUnknown e\<rparr>)"

text \<open>Line 450: \<open>it.programIdHint ?? (await getMintProgramId(it.mint))\<close>.\<close>

definition resolveProgramId :: "'w Env \<Rightarrow> NftBurnItem \<Rightarrow> (PublicKey, 'w) io" where
  "resolveProgramId env it =
     (case programIdHint it of
        Some p \<Rightarrow> returnE p
      | None \<Rightarrow> getMintProgramId env (mint it))"

text \<open>The \<open>order\<close> array of lines 472-477: the label and the instructions of each candidate.\<close>

definition candOrder :: "PnftVariants \<Rightarrow> (string \<times> TransactionInstruction list option) list" where
  "candOrder variants =
     [(''burn only (with rules)'', burnOnlyWithRules variants),
      (''burn only (no rules)'', Some (burnOnly variants)),
      (''unlock+burn (with rules)'', unlockThenBurnWithRules variants),
      (''unlock+burn (no rules)'', Some (unlockThenBurn variants))]"

text \<open>The \<open>for (const cand of order)\<close> loop, lines 478-493.\<close>

fun pnftPickLoop ::
  "'w Env \<Rightarrow> PublicKey \<Rightarrow> (string \<times> TransactionInstruction list option) list
     \<Rightarrow> (TransactionInstruction list option, 'w) io" where
  "pnftPickLoop env owner [] w = (Inr None, w)"
| "pnftPickLoop env owner (cand # rest) w =
     (case snd cand of
        None \<Rightarrow> pnftPickLoop env owner rest w
      | Some ixs \<Rightarrow>
          if ixs = [] then pnftPickLoop env owner rest w
          else
            (case simulateIxs env owner (budgetIxs @ ixs) (''pnft-pick '' @ fst cand) w of
               (Inl e, w1) \<Rightarrow> (Inl e, w1)
             | (Inr sim, w1) \<Rightarrow>
                 if sim = SimOk then (Inr (Some ixs), w1)
                 else pnftPickLoop env owner rest w1))"

text \<open>The chain of \<open>??\<close> of lines 495-499.\<close>

definition pnftFallback :: "PnftVariants \<Rightarrow> TransactionInstruction list option" where
  "pnftFallback variants =
     orElse (burnOnlyWithRules variants)
       (orElse (Some (burnOnly variants))
          (orElse (unlockThenBurnWithRules variants) (Some (unlockThenBurn variants))))"

text \<open>The choice among the candidates of one rule-protected asset, lines 472-500.\<close>

definition pickPnft ::
  "'w Env \<Rightarrow> PublicKey \<Rightarrow> PnftVariants \<Rightarrow> (TransactionInstruction list option, 'w) io" where
  "pickPnft env owner variants =
     bindE (pnftPickLoop env owner (candOrder variants)) (\<lambda>pnftIxs.
       if pnftIxs = None then returnE (pnftFallback variants) else returnE pnftIxs)"

text \<open>Lines 467-502: \<open>pnftIxs\<close> after the block.\<close>

definition selectPnftIxs ::
  "'w Env \<Rightarrow> PublicKey \<Rightarrow> NftBurnItem \<Rightarrow> PublicKey
     \<Rightarrow> (TransactionInstruction list option, 'w) io" where
  "selectPnftIxs env owner it tokenAcct =
     bindE (buildPnftVariants env owner (mint it) tokenAcct (collectionMintHint it)) (\<lambda>variants.
       case variants of
         None \<Rightarrow> returnE None
       | Some v \<Rightarrow> pickPnft env owner v)"

text \<open>The plain SPL burn pushed at lines 531-538, 542-549 and 553-560.\<close>

definition splPure :: "PublicKey \<Rightarrow> NftBurnItem \<Rightarrow> PublicKey \<Rightarrow> PublicKey \<Rightarrow> Prepared" where
  "splPure owner it tokenAcct programId =
     \<lparr>p_mint = mint it,
      p_ixs = [BurnInstruction tokenAcct (mint it) owner 1 programId,
               CloseAccountInstruction tokenAcct owner owner programId],
      p_kind = Spl\<rparr>"

text \<open>Lines 467-561: the rest of the body once the token account is known.\<close>

definition prepareWithAccount ::
  "'w Env \<Rightarrow> bool \<Rightarrow> PublicKey \<Rightarrow> NftBurnItem \<Rightarrow> PublicKey \<Rightarrow> PublicKey
     \<Rightarrow> (unit, 'w RunState) io" where
  "prepareWithAccount env deepClean owner it programId tokenAcct =
     bindE (liftW (selectPnftIxs env owner it tokenAcct)) (\<lambda>pnftIxs.
       if deepClean \<and> pnftIxs \<noteq> None then
         pushPrepared \<lparr>p_mint = mint it, p_ixs = the pnftIxs, p_kind = Pnft\<rparr>
       else if deepClean then
         bindE (liftW (buildLegacyTmBurn env owner (mint it) tokenAcct programId)) (\<lambda>legacyIxs.
           case legacyIxs of
             Some l \<Rightarrow>
               bindE (liftW (simulateIxs env owner (budgetIxs @ l) ''legacy-tm-check'')) (\<lambda>sim.
                 if sim = SimOk then pushPrepared \<lparr>p_mint = mint it, p_ixs = l, p_kind = Spl\<rparr>
                 else pushPrepared (splPure owner it tokenAcct programId))
           | None \<Rightarrow> pushPrepared (splPure owner it tokenAcct programId))
       else pushPrepared (splPure owner it tokenAcct programId))"

text \<open>The SPL / pNFT part of the body, lines 450-561.\<close>

definition splPnftBranch ::
  "'w Env \<Rightarrow> bool \<Rightarrow> PublicKey \<Rightarrow> NftBurnItem \<Rightarrow> (unit, 'w RunState) io" where
  "splPnftBranch env deepClean owner it =
     bindE (liftW (resolveProgramId env it)) (\<lambda>programId.
       case tokenAccount it of
         None \<Rightarrow>
           bindE (liftW (resolveAtaByMintProgram env (mint it) owner programId)) (\<lambda>r.
             prepareWithAccount env deepClean owner it programId (fst r))
       | Some ta \<Rightarrow>
           bindE (liftW (getAccountInfo env ta)) (\<lambda>ai.
             case ai of
               None \<Rightarrow> pushSkipped \<lparr>skip_mint = mint it, reason = ''token account not found''\<rparr>
             | Some info \<Rightarrow>
                 (let ataProgram =
                        (if ai_owner info = TOKEN_2022_PROGRAM_ID then TOKEN_2022_PROGRAM_ID
                         else TOKEN_PROGRAM_ID)
                  in if ataProgram \<noteq> programId then
                       bindE (liftW (resolveAtaByMintProgram env (mint it) owner programId)) (\<lambda>r.
                         prepareWithAccount env deepClean owner it programId (fst r))
                     else prepareWithAccount env deepClean owner it programId ta)))"

text \<open>The body of \<open>for (const it of rawItems)\<close>, lines 416-564.\<close>

definition itemBody ::
  "'w Env \<Rightarrow> bool \<Rightarrow> PublicKey \<Rightarrow> NftBurnItem \<Rightarrow> (unit, 'w RunState) io" where
  "itemBody env deepClean owner it =
     tryCatch
       (if isCompressed it then
          pushSkipped \<lparr>skip_mint = mint it, reason = ''cNFT not supported''\<rparr>
        else if isCoreHint it then coreBranch env owner it
        else splPnftBranch env deepClean owner it)
       (\<lambda>e. pushSkipped \<lparr>skip_mint = mint it, reason = ''error: '' @ messageOrUnknown e\<rparr>)"

fun forItems ::
  "'w Env \<Rightarrow> bool \<Rightarrow> PublicKey \<Rightarrow> NftBurnItem list \<Rightarrow> (unit, 'w RunState) io" where
  "forItems env deepClean owner [] s = (Inr (), s)"
| "forItems env deepClean owner (it # rest) s =
     (case itemBody env deepClean owner it s of
        (Inl e, s1) \<Rightarrow> (Inl e, s1)
      | (Inr u, s1) \<Rightarrow> forItems env deepClean owner rest s1)"

text \<open>
  The grouping loop, lines 577-581: \<open>for (let i = 0; i < prepared.length; i += MAX_PER_TX)\<close>.
  \<open>MAX_PER_TX\<close> is 16 or 6; the loop is entered with a positive step only.
\<close>

function groupsFrom :: "nat \<Rightarrow> nat \<Rightarrow> Prepared list \<Rightarrow> Group list list" where
  "groupsFrom maxPerTx i prepared =
     (if i < length prepared \<and> 0 < maxPerTx then
        (let slice = map (\<lambda>p. \<lparr>g_mint = p_mint p, g_ixs = p_ixs p\<rparr>)
                       (take maxPerTx (drop i prepared))
         in (if slice \<noteq> [] then [slice] else []) @ groupsFrom maxPerTx (i + maxPerTx) prepared)
      else [])"
  by pat_completeness auto
termination
  by (relation "measure (\<lambda>(maxPerTx, i, prepared). length prepared - i)") auto

declare groupsFrom.simps [simp del]

text \<open>The grouping, lines 574-581.\<close>

definition planGroups :: "Prepared list \<Rightarrow> Group list list" where
  "planGroups prepared =
     (let heavyCount = length (filter (\<lambda>p. p_kind p \<noteq> Spl) prepared);
          MAX_PER_TX = (if heavyCount = 0 then 16 else 6)
      in groupsFrom MAX_PER_TX 0 prepared)"

text \<open>\<open>mutateAsync\<close>, lines 407-590; \<open>deepClean\<close> is the option of \<open>useBurnNfts\<close>.\<close>

definition mutateAsync ::
  "'w Env \<Rightarrow> bool \<Rightarrow> NftBurnItem list \<Rightarrow> (BurnBatchResult, 'w) io" where
  "mutateAsync env deepClean rawItems w =
     (case account_publicKey env of
        None \<Rightarrow> (Inl (mkError ''Wallet not connected''), w)
      | Some owner \<Rightarrow>
          (case forItems env deepClean owner rawItems
                  \<lparr>world = w, st_skipped = [], st_prepared = []\<rparr> of
             (Inl e, s) \<Rightarrow> (Inl e, world s)
           | (Inr u, s) \<Rightarrow>
               (let groups = planGroups (st_prepared s)
                in if groups = [] then (Inr \<lparr>ok = [], skipped = st_skipped s\<rparr>, world s)
                   else
                     (case sendGroups env owner groups (world s) of
                        (Inl e, w2) \<Rightarrow> (Inl e, w2)
                      | (Inr okList, w2) \<Rightarrow>
                          (Inr \<lparr>ok = okList, skipped = st_skipped s\<rparr>, w2)))))"

section \<open>hooks/use-nft-enrichment.ts\<close>

record Content =
  json_uri :: "string option"
  metadata_name :: "string option"
  links_image :: "string option"

record HeliusAsset =
  asset_id :: string
  content :: "Content option"

record ResolvedNftMeta =
  meta_image :: "string option"
  meta_name :: "string option"
  meta_jsonUri :: "string option"

definition emptyContent :: Content where
  "emptyContent = \<lparr>json_uri = None, metadata_name = None, links_image = None\<rparr>"

text \<open>
  The callback of \<open>slice.map\<close>, lines 50-69. Its argument \<open>res\<close> is what
  \<open>resolveNftMeta(connection, a)\<close> did: \<open>Inl e\<close> when it threw.
\<close>

definition enrichOne :: "jsval + ResolvedNftMeta \<Rightarrow> HeliusAsset \<Rightarrow> HeliusAsset" where
  "enrichOne res a =
     (case res of
        Inl e \<Rightarrow> a
      | Inr meta \<Rightarrow>
          (let c = (case content a of Some c \<Rightarrow> c | None \<Rightarrow> emptyContent);
               image = orElse (meta_image meta) (links_image c);
               name = orElse (meta_name meta) (metadata_name c);
               json = orElse (meta_jsonUri meta) (json_uri c)
           in if \<not> truthyStr image \<and> \<not> truthyStr name \<and> \<not> truthyStr json then a
              else a\<lparr>content := Some (c\<lparr>
                     json_uri := json,
                     metadata_name := (if truthyStr name then name else metadata_name c),
                     links_image := (if truthyStr image then image else links_image c)\<rparr>)\<rparr>))"

definition enrichSlice ::
  "(HeliusAsset \<Rightarrow> jsval + ResolvedNftMeta) \<Rightarrow> HeliusAsset list \<Rightarrow> HeliusAsset list" where
  "enrichSlice resolve slice = map (\<lambda>a. enrichOne (resolve a) a) slice"

text \<open>\<open>new Map(enriched.map((e) => [e.id, e]))\<close>: a later entry replaces an earlier one.\<close>

definition byId :: "HeliusAsset list \<Rightarrow> (string \<rightharpoonup> HeliusAsset)" where
  "byId enriched = foldl (\<lambda>m e. m(asset_id e \<mapsto> e)) Map.empty enriched"

text \<open>The updater passed to \<open>setNfts\<close>, lines 74-77.\<close>

definition mergeEnriched :: "HeliusAsset list \<Rightarrow> HeliusAsset list \<Rightarrow> HeliusAsset list" where
  "mergeEnriched enriched cur =
     map (\<lambda>c. case byId enriched (asset_id c) of Some e \<Rightarrow> e | None \<Rightarrow> c) cur"

section \<open>Sample environments\<close>

text \<open>
  Concrete environments on which the model is evaluated. The world state counts the
  network calls made so far. In \<open>env0\<close> every mint and token account is owned by the
  Token-2022 program, no asset has a token record (so no asset is rule-protected) or a
  Core record, every simulation is accepted and the wallet signs.
\<close>

definition env0 :: "nat Env" where
  "env0 =
     \<lparr>account_publicKey = Some ''Owner'',
      getAccountInfo = (\<lambda>k w. (Inr (Some \<lparr>ai_owner = TOKEN_2022_PROGRAM_ID\<rparr>), Suc w)),
      getLatestBlockhashAndContext = (\<lambda>c w. (Inr \<lparr>ctx_slot = w, ctx_blockhash = ''bh''\<rparr>, Suc w)),
      compileToV0Message = (\<lambda>tx. None),
      simulateTransaction = (\<lambda>tx w. (Inr \<lparr>sv_err = JNull, sv_logs = None\<rparr>, Suc w)),
      mobileSignAndSend = (\<lambda>tx slot opts w. (Inr ''sig'', Suc w)),
      getAssociatedTokenAddress = (\<lambda>m ow p. Inr ''ata''),
      coreFetchAsset = (\<lambda>a w. (Inl (mkError ''asset not found''), Suc w)),
      coreBurn = (\<lambda>a c. Inr [UmiInstruction ''coreBurn'']),
      coreCollectionAddress = (\<lambda>a. Inr None),
      coreFetchCollection = (\<lambda>a w. (Inl (mkError ''collection not found''), Suc w)),
      findMetadataPda = (\<lambda>m. Inr ''metadataPda''),
      findMasterEditionPda = (\<lambda>m. Inr ''editionPda''),
      findTokenRecordPda = (\<lambda>m t. Inr ''tokenRecordPda''),
      umi_rpc_getAccount = (\<lambda>k w. (Inr False, Suc w)),
      fetchMetadataRuleSet = (\<lambda>m w. (Inr None, Suc w)),
      burnV1 = (\<lambda>i. Inr [UmiInstruction ''burnV1'']),
      unlockV1 = (\<lambda>i. Inr [UmiInstruction ''unlockV1''])\<rparr>"

text \<open>Two errors of the wallet: the user declined, and a transport failure.\<close>

definition declineErr :: jsval where
  "declineErr = mkError ''User rejected the request''"

definition fatalErr :: jsval where
  "fatalErr = mkError ''Blockhash not found''"

text \<open>The wallet user declines every prompt.\<close>

definition envDecline :: "nat Env" where
  "envDecline = env0\<lparr>mobileSignAndSend := (\<lambda>tx slot opts w. (Inl declineErr, Suc w))\<rparr>"

text \<open>The wallet user declines the prompts of the first transaction, and signs afterwards.\<close>

definition envDeclineFirst :: "nat Env" where
  "envDeclineFirst =
     env0\<lparr>mobileSignAndSend :=
            (\<lambda>tx slot opts w. if w < 6 then (Inl declineErr, Suc w) else (Inr ''sig'', Suc w))\<rparr>"

text \<open>The wallet fails with a transport error.\<close>

definition envFatal :: "nat Env" where
  "envFatal = env0\<lparr>mobileSignAndSend := (\<lambda>tx slot opts w. (Inl fatalErr, Suc w))\<rparr>"

text \<open>A transaction of more than four instructions simulates as too large.\<close>

definition envSize :: "nat Env" where
  "envSize =
     env0\<lparr>simulateTransaction :=
            (\<lambda>tx w. if 4 < length (instructions tx)
                    then (Inr \<lparr>sv_err = JStr ''Transaction too large'', sv_logs = None\<rparr>, Suc w)
                    else (Inr \<lparr>sv_err = JNull, sv_logs = None\<rparr>, Suc w))\<rparr>"

text \<open>Every transaction simulates as too large.\<close>

definition envTooLarge :: "nat Env" where
  "envTooLarge =
     env0\<lparr>simulateTransaction :=
            (\<lambda>tx w. (Inr \<lparr>sv_err = JStr ''Transaction too large'', sv_logs = None\<rparr>, Suc w))\<rparr>"

text \<open>Groups of one instruction each.\<close>

definition gA :: Group where
  "gA = \<lparr>g_mint = ''MintA'', g_ixs = [UmiInstruction ''burnA'']\<rparr>"

definition gB :: Group where
  "gB = \<lparr>g_mint = ''MintB'', g_ixs = [UmiInstruction ''burnB'']\<rparr>"

definition gC :: Group where
  "gC = \<lparr>g_mint = ''MintC'', g_ixs = [UmiInstruction ''burnC'']\<rparr>"

text \<open>Every simulation fails with an error and thirteen log lines.\<close>

definition envLogs :: "nat Env" where
  "envLogs =
     env0\<lparr>simulateTransaction :=
            (\<lambda>tx w. (Inr \<lparr>sv_err = JStr ''AccountNotFound'',
                             sv_logs = Some (replicate 13 ''Program log: burn'')\<rparr>, Suc w))\<rparr>"

text \<open>An item with no hint at all, and the empty state a run starts in.\<close>

definition item0 :: NftBurnItem where
  "item0 =
     \<lparr>mint = ''MintA'', tokenAccount = None, isCompressed = False, isPnftHint = False,
      isCoreHint = False, programIdHint = None, frozenHint = False,
      collectionMintHint = None\<rparr>"

definition state0 :: "nat RunState" where
  "state0 = \<lparr>world = 0, st_skipped = [], st_prepared = []\<rparr>"

text \<open>The phrases \<open>isTooLargeErr\<close> looks for.\<close>

definition oversizedPhrases :: "string list" where
  "oversizedPhrases =
     [''VersionedTransaction too large'',
      ''solana_transaction::versioned::VersionedTransaction too large'',
      ''transaction too large'',
      ''Transaction too large'',
      ''packet too large'',
      ''encoded/raw'']"

section \<open>Specification-side notions\<close>

text \<open>
  A chain of splits: each group but the first is one of the two halves that
  \<open>sendGroups\<close> makes of the group before it, which has more than one item.
\<close>

fun splitChain :: "'a list list \<Rightarrow> bool" where
  "splitChain [] = True"
| "splitChain [g] = True"
| "splitChain (g # h # rest) =
     (1 < length g \<and> (h = fst (splitHalves g) \<or> h = snd (splitHalves g)) \<and>
      splitChain (h # rest))"

text \<open>
  The candidates of the list that exist and are not empty are simulated one after the
  other, as the selector does, and none is accepted: \<open>Some\<close> of the world after the
  last simulation, and \<open>None\<close> when one of them is accepted.
\<close>

fun allRejected ::
  "'w Env \<Rightarrow> PublicKey \<Rightarrow> (string \<times> TransactionInstruction list option) list
     \<Rightarrow> 'w \<Rightarrow> 'w option" where
  "allRejected env owner [] w = Some w"
| "allRejected env owner (cand # rest) w =
     (case snd cand of
        None \<Rightarrow> allRejected env owner rest w
      | Some ixs \<Rightarrow>
          if ixs = [] then allRejected env owner rest w
          else
            (case simulateIxs env owner (budgetIxs @ ixs) (''pnft-pick '' @ fst cand) w of
               (Inr (SimFail err errStr logs), w1) \<Rightarrow> allRejected env owner rest w1
             | (Inr SimOk, w1) \<Rightarrow> None
             | (Inl e, w1) \<Rightarrow> None))"

text \<open>
  The pushes of a piece of the body of the loop over the items: \<open>appends k s s'\<close> says
  that \<open>s'\<close> has the two arrays of \<open>s\<close> with \<open>k\<close> records appended in all;
  \<open>adds k m\<close> that \<open>m\<close> appends \<open>k\<close> records when it returns and none when it
  throws; \<open>addsAlways k m\<close> that \<open>m\<close> always returns, having appended \<open>k\<close> records.
\<close>

definition appends :: "nat \<Rightarrow> 'w RunState \<Rightarrow> 'w RunState \<Rightarrow> bool" where
  "appends k s s' =
     (\<exists>xs ys. st_skipped s' = st_skipped s @ xs \<and> st_prepared s' = st_prepared s @ ys \<and>
              length xs + length ys = k)"

definition adds :: "nat \<Rightarrow> ('a, 'w RunState) io \<Rightarrow> bool" where
  "adds k m = (\<forall>s r s'. m s = (r, s') \<longrightarrow> appends (case r of Inl e \<Rightarrow> 0 | Inr a \<Rightarrow> k) s s')"

definition addsAlways :: "nat \<Rightarrow> ('a, 'w RunState) io \<Rightarrow> bool" where
  "addsAlways k m = (\<forall>s r s'. m s = (r, s') \<longrightarrow> (\<exists>a. r = Inr a) \<and> appends k s s')"

text \<open>
  A rule-protected asset with a rule set: the token record exists, and a transaction
  that burns with the rule set is rejected by the simulation.
\<close>

definition envRules :: "nat Env" where
  "envRules =
     env0\<lparr>umi_rpc_getAccount := (\<lambda>k w. (Inr True, Suc w)),
          fetchMetadataRuleSet := (\<lambda>m w. (Inr (Some ''RuleSet''), Suc w)),
          burnV1 := (\<lambda>i. Inr [UmiInstruction
                      (case tm_authorizationRules i of
                         Some r \<Rightarrow> ''burnV1 with rules'' | None \<Rightarrow> ''burnV1'')]),
          simulateTransaction :=
            (\<lambda>tx w. if UmiInstruction ''burnV1 with rules'' \<in> set (instructions tx)
                    then (Inr \<lparr>sv_err = JStr ''InvalidAuthorizationRules'', sv_logs = None\<rparr>, Suc w)
                    else (Inr \<lparr>sv_err = JNull, sv_logs = None\<rparr>, Suc w))\<rparr>"

text \<open>The four candidates that \<open>buildPnftVariants\<close> makes in \<open>envRules\<close>.\<close>

definition variantsRules :: PnftVariants where
  "variantsRules =
     \<lparr>burnOnly = [UmiInstruction ''burnV1''],
      unlockThenBurn = [UmiInstruction ''unlockV1'', UmiInstruction ''burnV1''],
      burnOnlyWithRules = Some [UmiInstruction ''burnV1 with rules''],
      unlockThenBurnWithRules =
        Some [UmiInstruction ''unlockV1'', UmiInstruction ''burnV1 with rules'']\<rparr>"

section \<open>Basic facts about the model\<close>

lemmas io_defs = bindE_def tryCatch_def returnE_def throwE_def liftE_def liftW_def
  pushSkipped_def pushPrepared_def

lemmas burn_defs = itemBody_def coreBranch_def splPnftBranch_def resolveProgramId_def
  getMintProgramId_def resolveAtaByMintProgram_def prepareWithAccount_def selectPnftIxs_def
  pickPnft_def candOrder_def pnftFallback_def orElse_def
  buildPnftVariants_def buildLegacyTmBurn_def buildCoreBurnVariants_def splPure_def
  simulateIxs_def simulateTry_def compileTx_def budgetIxs_def groupIxs_def
  submitGroup_def signAndSendTransaction_def sendGroups_def mutateAsync_def

lemmas sample_defs = env0_def envDecline_def envDeclineFirst_def envFatal_def envSize_def
  envTooLarge_def envLogs_def envRules_def variantsRules_def item0_def state0_def
  gA_def gB_def gC_def

lemma simulateIxs_returns: "\<exists>r w'. simulateIxs env owner ixs label w = (Inr r, w')"
  by (auto simp: simulateIxs_def tryCatch_def returnE_def Let_def split: prod.splits sum.splits)

lemma simulateIxs_of_try_Inr:
  "simulateTry env owner ixs w = (Inr r, w') \<Longrightarrow> simulateIxs env owner ixs label w = (Inr r, w')"
  by (simp add: simulateIxs_def tryCatch_def)

lemma simulateIxs_of_try_Inl:
  "simulateTry env owner ixs w = (Inl e, w') \<Longrightarrow>
   simulateIxs env owner ixs label w = (Inr (SimFail e (Some (stringifyErr e)) None), w')"
  by (simp add: simulateIxs_def tryCatch_def returnE_def)

lemma simulateTry_rpc_error:
  "getLatestBlockhashAndContext env ''processed'' w = (Inr bh, w1) \<Longrightarrow>
   compileToV0Message env \<lparr>payerKey = owner, recentBlockhash = ctx_blockhash bh, instructions = ixs\<rparr> = None \<Longrightarrow>
   simulateTransaction env \<lparr>payerKey = owner, recentBlockhash = ctx_blockhash bh, instructions = ixs\<rparr> w1 = (Inr sim, w2) \<Longrightarrow>
   truthy (sv_err sim) \<Longrightarrow>
   simulateTry env owner ixs w =
     (Inr (SimFail (sv_err sim) (Some (stringifyErr (sv_err sim)))
        (Some (case sv_logs sim of Some l \<Rightarrow> l | None \<Rightarrow> []))), w2)"
  by (simp add: simulateTry_def compileTx_def bindE_def returnE_def Let_def)

lemma isTooLargeErr_phrases:
  "isTooLargeErr e \<longleftrightarrow> (\<exists>p \<in> set oversizedPhrases. str_includes (stringifyErr e) p)"
  by (simp add: isTooLargeErr_def oversizedPhrases_def Let_def)

lemma simTooLarge_fail:
  "simTooLarge (SimFail e (Some (stringifyErr e)) logs) \<longleftrightarrow> isTooLargeErr e"
  by (simp add: simTooLarge_def isTooLargeErr_def)

lemma isUserDecline_declineErr: "isUserDecline declineErr"
  by code_simp

lemma not_isUserDecline_fatalErr: "\<not> isUserDecline fatalErr"
  by code_simp

lemma tooLarge_sample: "isTooLargeErr (JStr ''Transaction too large'')"
  by code_simp


lemma sendGroupsLoop_step:
  "simulateIxs env owner (groupIxs grp) (batchLabel grp) w = (Inr simRes, w1) \<Longrightarrow>
   sendGroupsLoop env owner okAcc (grp # queue) w =
     (if simTooLarge simRes \<and> 1 < length grp then
        sendGroupsLoop env owner okAcc (fst (splitHalves grp) # snd (splitHalves grp) # queue) w1
      else
        (case submitGroup env owner (groupIxs grp) w1 of
           (Inr sig, w2) \<Rightarrow>
             sendGroupsLoop env owner
               (okAcc @ map (\<lambda>g. \<lparr>ok_mint = g_mint g, ok_sig = sig\<rparr>) grp) queue w2
         | (Inl e, w2) \<Rightarrow>
             if isUserDecline e then sendGroupsLoop env owner okAcc queue w2 else (Inl e, w2)))"
  by (subst sendGroupsLoop.simps) (simp add: Let_def)

lemma mutateAsync_unfold:
  "account_publicKey env = Some owner \<Longrightarrow>
   forItems env deepClean owner rawItems \<lparr>world = w, st_skipped = [], st_prepared = []\<rparr> = (Inr u, s) \<Longrightarrow>
   mutateAsync env deepClean rawItems w =
     (if planGroups (st_prepared s) = [] then (Inr \<lparr>ok = [], skipped = st_skipped s\<rparr>, world s)
      else (case sendGroups env owner (planGroups (st_prepared s)) (world s) of
              (Inl e, w2) \<Rightarrow> (Inl e, w2)
            | (Inr okList, w2) \<Rightarrow> (Inr \<lparr>ok = okList, skipped = st_skipped s\<rparr>, w2)))"
  by (simp add: mutateAsync_def Let_def)

section \<open>Facts about splitting\<close>

lemma pow2_ceil_log: "0 < n \<Longrightarrow> n \<le> 2 ^ nat \<lceil>log 2 (real n)\<rceil>"
  by (meson less_log2_of_power real_nat_ceiling_ge verit_comp_simplify1(3))

lemma splitHalves_lengths:
  "length (fst (splitHalves g)) = length g div 2 \<and>
   length (snd (splitHalves g)) = (length g + 1) div 2 \<and>
   fst (splitHalves g) @ snd (splitHalves g) = g"
proof -
  have "min (length g) (length g div 2) = length g div 2"
    by simp
  moreover have "length g - length g div 2 = (length g + 1) div 2"
    by arith
  ultimately show ?thesis
    by (simp add: splitHalves_def Let_def)
qed

lemma splitHalves_nonempty:
  "1 < length g \<Longrightarrow> fst (splitHalves g) \<noteq> [] \<and> snd (splitHalves g) \<noteq> []"
  by (auto simp: splitHalves_def Let_def)

lemma splitChain_pow:
  "splitChain (g # gs) \<Longrightarrow> length g \<le> 2 ^ m \<Longrightarrow> length gs \<le> m"
proof (induction gs arbitrary: g m)
  case Nil
  then show ?case by simp
next
  case (Cons h rest)
  from Cons.prems(1) have big: "1 < length g"
    and h: "h = fst (splitHalves g) \<or> h = snd (splitHalves g)"
    and chain: "splitChain (h # rest)"
    by simp_all
  from big Cons.prems(2) obtain m' where m: "m = Suc m'"
    by (cases m) auto
  from h have "length h \<le> (length g + 1) div 2"
    using splitHalves_lengths [of g] by auto
  also from Cons.prems(2) m have "(length g + 1) div 2 \<le> 2 ^ m'"
    by simp
  finally have "length rest \<le> m'"
    using Cons.IH [OF chain] by simp
  with m show ?case by simp
qed

lemma splitChain_nonempty: "splitChain (g # gs) \<Longrightarrow> \<forall>h \<in> set gs. h \<noteq> []"
proof (induction gs arbitrary: g)
  case Nil
  then show ?case by simp
next
  case (Cons h rest)
  from Cons.prems have big: "1 < length g"
    and h: "h = fst (splitHalves g) \<or> h = snd (splitHalves g)"
    and chain: "splitChain (h # rest)"
    by simp_all
  from big h have "h \<noteq> []"
    using splitHalves_nonempty [of g] by auto
  with Cons.IH [OF chain] show ?case by simp
qed

lemma splitChain_log:
  "splitChain (g # gs) \<Longrightarrow> length gs \<le> nat \<lceil>log 2 (real (length g))\<rceil>"
proof (cases "g = []")
  case True
  assume "splitChain (g # gs)"
  with True have "gs = []" by (cases gs) simp_all
  then show ?thesis by simp
next
  case False
  assume c: "splitChain (g # gs)"
  from False have "length g \<le> 2 ^ nat \<lceil>log 2 (real (length g))\<rceil>"
    by (intro pow2_ceil_log) simp
  with c show ?thesis by (rule splitChain_pow)
qed

lemma queueWeight_split:
  "1 < length grp \<Longrightarrow>
   queueWeight (fst (splitHalves grp) # snd (splitHalves grp) # queue) < queueWeight (grp # queue)"
proof -
  assume big: "1 < length grp"
  then have "max 1 (2 * (length grp div 2) - 1) + max 1 (2 * (length grp - length grp div 2) - 1)
               < max 1 (2 * length grp - 1)"
    by arith
  moreover from big have "min (length grp) (length grp div 2) = length grp div 2"
    by simp
  ultimately show ?thesis
    by (simp add: queueWeight_def splitHalves_def Let_def)
qed

lemma queueWeight_drop: "queueWeight queue < queueWeight (grp # queue)"
proof -
  have "0 < max (1::nat) (2 * length grp - 1)"
    by simp
  then show ?thesis
    by (simp add: queueWeight_def del: max.bounded_iff)
qed

lemma sendGroupsLoop_total: "sendGroupsLoop_dom (env, owner, okAcc, queue, w)"
proof -
  have "All (sendGroupsLoop_dom ::
          'a Env \<times> PublicKey \<times> BurnOk list \<times> Group list list \<times> 'a \<Rightarrow> bool)"
    by (relation "measure (\<lambda>(env :: 'a Env, owner :: PublicKey, okAcc :: BurnOk list,
                            queue :: Group list list, w :: 'a). queueWeight queue)")
       (simp_all add: queueWeight_split queueWeight_drop)
  then show ?thesis by blast
qed

section \<open>Facts about the choice of a rule-protected candidate\<close>

lemma pnftPickLoop_accept:
  "allRejected env owner pre w = Some w1 \<Longrightarrow> c \<noteq> [] \<Longrightarrow>
   simulateIxs env owner (budgetIxs @ c) (''pnft-pick '' @ nm) w1 = (Inr SimOk, w2) \<Longrightarrow>
   pnftPickLoop env owner (pre @ (nm, Some c) # post) w = (Inr (Some c), w2)"
proof (induction pre arbitrary: w)
  case Nil
  then show ?case by simp
next
  case (Cons cand pre)
  show ?case
  proof (cases "snd cand")
    case None
    with Cons show ?thesis by simp
  next
    case (Some ixs)
    show ?thesis
    proof (cases "ixs = []")
      case True
      with Some Cons show ?thesis by simp
    next
      case False
      obtain r wa where sim: "simulateIxs env owner (budgetIxs @ ixs) (''pnft-pick '' @ fst cand) w = (r, wa)"
        by (cases "simulateIxs env owner (budgetIxs @ ixs) (''pnft-pick '' @ fst cand) w")
      with Cons.prems(1) Some False obtain err errStr logs
        where r: "r = Inr (SimFail err errStr logs)" and rest: "allRejected env owner pre wa = Some w1"
        by (auto split: sum.splits SimResult.splits)
      from Cons.IH [OF rest Cons.prems(2) Cons.prems(3)] Some False sim r
      show ?thesis by simp
    qed
  qed
qed

lemma pnftPickLoop_none:
  "allRejected env owner cands w = Some w1 \<Longrightarrow> pnftPickLoop env owner cands w = (Inr None, w1)"
proof (induction cands arbitrary: w)
  case Nil
  then show ?case by simp
next
  case (Cons cand cands)
  show ?case
  proof (cases "snd cand")
    case None
    with Cons show ?thesis by simp
  next
    case (Some ixs)
    show ?thesis
    proof (cases "ixs = []")
      case True
      with Some Cons show ?thesis by simp
    next
      case False
      obtain r wa where sim: "simulateIxs env owner (budgetIxs @ ixs) (''pnft-pick '' @ fst cand) w = (r, wa)"
        by (cases "simulateIxs env owner (budgetIxs @ ixs) (''pnft-pick '' @ fst cand) w")
      with Cons.prems(1) Some False obtain err errStr logs
        where r: "r = Inr (SimFail err errStr logs)" and rest: "allRejected env owner cands wa = Some w1"
        by (auto split: sum.splits SimResult.splits)
      from Cons.IH [OF rest] Some False sim r
      show ?thesis by simp
    qed
  qed
qed

lemma pickPnft_accept:
  "candOrder v = pre @ (nm, Some c) # post \<Longrightarrow> c \<noteq> [] \<Longrightarrow>
   allRejected env owner pre w = Some w1 \<Longrightarrow>
   simulateIxs env owner (budgetIxs @ c) (''pnft-pick '' @ nm) w1 = (Inr SimOk, w2) \<Longrightarrow>
   pickPnft env owner v w = (Inr (Some c), w2)"
  using pnftPickLoop_accept [of env owner pre w w1 c nm w2 post]
  by (simp add: pickPnft_def bindE_def returnE_def)

lemma pickPnft_fallback:
  "allRejected env owner (candOrder v) w = Some w1 \<Longrightarrow>
   pickPnft env owner v w = (Inr (pnftFallback v), w1)"
  using pnftPickLoop_none [of env owner "candOrder v" w w1]
  by (simp add: pickPnft_def bindE_def returnE_def)

lemma pnftFallback_first:
  "List.find (\<lambda>c. c \<noteq> None) (map snd (candOrder v)) = Some (pnftFallback v)"
  by (cases "burnOnlyWithRules v") (simp_all add: candOrder_def pnftFallback_def orElse_def)

section \<open>Facts about what the loop over the items pushes\<close>

lemma appends_refl: "appends 0 s s"
  by (simp add: appends_def)

lemma appends_trans: "appends j s s1 \<Longrightarrow> appends k s1 s2 \<Longrightarrow> appends (j + k) s s2"
  by (auto simp: appends_def)

lemma appends_world: "appends 0 s (s\<lparr>world := w\<rparr>)"
  by (simp add: appends_def)

lemma addsD: "adds k m \<Longrightarrow> m s = (r, s') \<Longrightarrow> appends (case r of Inl e \<Rightarrow> 0 | Inr a \<Rightarrow> k) s s'"
  unfolding adds_def by blast

lemma addsAlwaysD: "addsAlways k m \<Longrightarrow> m s = (r, s') \<Longrightarrow> (\<exists>a. r = Inr a) \<and> appends k s s'"
  unfolding addsAlways_def by blast

lemma addsAlways_adds: "addsAlways k m \<Longrightarrow> adds k m"
proof -
  assume m: "addsAlways k m"
  show "adds k m"
    unfolding adds_def
  proof (intro allI impI)
    fix s r s'
    assume "m s = (r, s')"
    from addsAlwaysD [OF m this] obtain a where "r = Inr a" and "appends k s s'"
      by blast
    then show "appends (case r of Inl e \<Rightarrow> 0 | Inr a \<Rightarrow> k) s s'"
      by simp
  qed
qed

lemma adds_liftW: "adds 0 (liftW m)"
proof -
  have "\<And>s r s'. liftW m s = (r, s') \<Longrightarrow> appends 0 s s'"
    by (auto simp: liftW_def appends_world split: prod.splits)
  then show ?thesis
    unfolding adds_def by (auto split: sum.splits)
qed

lemma addsAlways_pushSkipped: "addsAlways (Suc 0) (pushSkipped x)"
  by (simp add: addsAlways_def pushSkipped_def appends_def)

lemma addsAlways_pushPrepared: "addsAlways (Suc 0) (pushPrepared x)"
  by (simp add: addsAlways_def pushPrepared_def appends_def)

lemma adds_pushSkipped: "adds (Suc 0) (pushSkipped x)"
  by (rule addsAlways_adds [OF addsAlways_pushSkipped])

lemma adds_pushPrepared: "adds (Suc 0) (pushPrepared x)"
  by (rule addsAlways_adds [OF addsAlways_pushPrepared])

lemma adds_if: "(c \<Longrightarrow> adds k a) \<Longrightarrow> (\<not> c \<Longrightarrow> adds k b) \<Longrightarrow> adds k (if c then a else b)"
  by simp

lemma adds_case_option:
  "(x = None \<Longrightarrow> adds k a) \<Longrightarrow> (\<And>y. x = Some y \<Longrightarrow> adds k (b y)) \<Longrightarrow>
   adds k (case x of None \<Rightarrow> a | Some y \<Rightarrow> b y)"
  by (cases x) simp_all

lemma adds_Let: "adds k (f v) \<Longrightarrow> adds k (Let v f)"
  by simp

lemma adds_bindE: "adds 0 m \<Longrightarrow> (\<And>a. adds k (f a)) \<Longrightarrow> adds k (bindE m f)"
proof -
  assume m: "adds 0 m" and f: "\<And>a. adds k (f a)"
  show "adds k (bindE m f)"
    unfolding adds_def
  proof (intro allI impI)
    fix s r s'
    assume run: "bindE m f s = (r, s')"
    obtain r1 s1 where m1: "m s = (r1, s1)" by (cases "m s")
    from addsD [OF m m1] have a1: "appends 0 s s1" by (cases r1) simp_all
    show "appends (case r of Inl e \<Rightarrow> 0 | Inr a \<Rightarrow> k) s s'"
    proof (cases r1)
      case (Inl e)
      with run m1 have "r = Inl e" "s' = s1" by (simp_all add: bindE_def)
      with a1 show ?thesis by simp
    next
      case (Inr a)
      with run m1 have "f a s1 = (r, s')" by (simp add: bindE_def)
      from addsD [OF f this] have "appends (case r of Inl e \<Rightarrow> 0 | Inr a \<Rightarrow> k) s1 s'" .
      from appends_trans [OF a1 this] show ?thesis by simp
    qed
  qed
qed

lemma addsAlways_tryCatch:
  "adds k m \<Longrightarrow> (\<And>e. addsAlways k (h e)) \<Longrightarrow> addsAlways k (tryCatch m h)"
proof -
  assume m: "adds k m" and h: "\<And>e. addsAlways k (h e)"
  show "addsAlways k (tryCatch m h)"
    unfolding addsAlways_def
  proof (intro allI impI)
    fix s r s'
    assume run: "tryCatch m h s = (r, s')"
    obtain r1 s1 where m1: "m s = (r1, s1)" by (cases "m s")
    show "(\<exists>a. r = Inr a) \<and> appends k s s'"
    proof (cases r1)
      case (Inl e)
      with addsD [OF m m1] have a1: "appends 0 s s1" by simp
      from Inl run m1 have "h e s1 = (r, s')" by (simp add: tryCatch_def)
      from addsAlwaysD [OF h this] have "(\<exists>a. r = Inr a) \<and> appends k s1 s'" .
      with appends_trans [OF a1, of k s'] show ?thesis by simp
    next
      case (Inr a)
      with run m1 have "r = Inr a" "s' = s1" by (simp_all add: tryCatch_def)
      with addsD [OF m m1] Inr show ?thesis by simp
    qed
  qed
qed

lemmas adds_intros = adds_bindE adds_liftW adds_if adds_case_option adds_Let
  adds_pushPrepared adds_pushSkipped

lemma adds_prepareWithAccount:
  "adds (Suc 0) (prepareWithAccount env deepClean owner it programId tokenAcct)"
  unfolding prepareWithAccount_def by (intro adds_intros)

lemma adds_splPnftBranch: "adds (Suc 0) (splPnftBranch env deepClean owner it)"
  unfolding splPnftBranch_def by (intro adds_intros adds_prepareWithAccount)

lemma addsAlways_coreBranch: "addsAlways (Suc 0) (coreBranch env owner it)"
  unfolding coreBranch_def by (intro addsAlways_tryCatch addsAlways_pushSkipped adds_intros)

lemma addsAlways_itemBody: "addsAlways (Suc 0) (itemBody env deepClean owner it)"
  unfolding itemBody_def
  by (intro addsAlways_tryCatch addsAlways_pushSkipped adds_intros adds_splPnftBranch
      addsAlways_adds [OF addsAlways_coreBranch])

lemma addsAlways_forItems: "addsAlways (length items) (forItems env deepClean owner items)"
proof (induction items)
  case Nil
  show ?case by (simp add: addsAlways_def appends_refl)
next
  case (Cons it items)
  show ?case
    unfolding addsAlways_def
  proof (intro allI impI)
    fix s r s'
    assume run: "forItems env deepClean owner (it # items) s = (r, s')"
    obtain r1 s1 where b: "itemBody env deepClean owner it s = (r1, s1)"
      by (cases "itemBody env deepClean owner it s")
    with addsAlways_itemBody [of env deepClean owner it]
    obtain u where r1: "r1 = Inr u" and a1: "appends (Suc 0) s s1"
      by (auto simp: addsAlways_def)
    from run b r1 have "forItems env deepClean owner items s1 = (r, s')" by simp
    with Cons.IH have "(\<exists>a. r = Inr a) \<and> appends (length items) s1 s'"
      by (simp add: addsAlways_def)
    with appends_trans [OF a1, of "length items" s'] show "(\<exists>a. r = Inr a) \<and> appends (length (it # items)) s s'"
      by simp
  qed
qed

section \<open>Facts about the grouping and the count of successes\<close>





section \<open>Facts about the count of records of a run\<close>


lemma forItems_counts:
  "forItems env deepClean owner rawItems \<lparr>world = w, st_skipped = [], st_prepared = []\<rparr> = (r, s) \<Longrightarrow>
   (\<exists>u. r = Inr u) \<and> length (st_skipped s) + length (st_prepared s) = length rawItems"
  using addsAlwaysD [OF addsAlways_forItems, of env deepClean owner rawItems
      "\<lparr>world = w, st_skipped = [], st_prepared = []\<rparr>" r s]
  by (auto simp: appends_def)

lemma appends_skipped_subset: "appends k s s' \<Longrightarrow> set (st_skipped s) \<subseteq> set (st_skipped s')"
  by (auto simp: appends_def)

lemma itemBody_compressed:
  "isCompressed it \<Longrightarrow>
   itemBody env deepClean owner it s =
     (Inr (), s\<lparr>st_skipped := st_skipped s @
                  [\<lparr>skip_mint = mint it, reason = ''cNFT not supported''\<rparr>]\<rparr>)"
  by (simp add: itemBody_def tryCatch_def pushSkipped_def)

lemma forItems_compressed:
  "forItems env deepClean owner items s = (r, s') \<Longrightarrow> it \<in> set items \<Longrightarrow> isCompressed it \<Longrightarrow>
   \<lparr>skip_mint = mint it, reason = ''cNFT not supported''\<rparr> \<in> set (st_skipped s')"
proof (induction items arbitrary: s)
  case Nil
  then show ?case by simp
next
  case (Cons x items)
  obtain r1 s1 where b: "itemBody env deepClean owner x s = (r1, s1)"
    by (cases "itemBody env deepClean owner x s")
  from addsAlwaysD [OF addsAlways_itemBody b] obtain u where r1: "r1 = Inr u"
    by blast
  from Cons.prems(1) b r1 have rest: "forItems env deepClean owner items s1 = (r, s')"
    by simp
  show ?case
  proof (cases "it = x")
    case True
    with Cons.prems(3) b
    have "s1 = s\<lparr>st_skipped := st_skipped s @
                   [\<lparr>skip_mint = mint it, reason = ''cNFT not supported''\<rparr>]\<rparr>"
      by (simp add: itemBody_compressed)
    then have "\<lparr>skip_mint = mint it, reason = ''cNFT not supported''\<rparr> \<in> set (st_skipped s1)"
      by simp
    moreover from addsAlwaysD [OF addsAlways_forItems rest]
    have "appends (length items) s1 s'"
      by simp
    then have "set (st_skipped s1) \<subseteq> set (st_skipped s')"
      by (rule appends_skipped_subset)
    ultimately show ?thesis by blast
  next
    case False
    with Cons.prems(2) have "it \<in> set items" by simp
    from Cons.IH [OF rest this Cons.prems(3)] show ?thesis .
  qed
qed

lemmas run_defs = sample_defs burn_defs io_defs Let_def planGroups_def groupsFrom.simps
  sendGroupsLoop.simps simTooLarge_def mkError_def

section \<open>The result of a run accounts for the items\<close>




section \<open>Compressed assets\<close>

text \<open>
  C2 (amended). For an item flagged compressed, whatever its other fields, the body
  of the loop only appends to \<open>skipped\<close> the record of its mint with the reason
  \<open>cNFT not supported\<close>: the world is untouched, so that no builder and no network
  call ran, and nothing is prepared. When the run returns, this record is in the
  \<open>skipped\<close> list of the result.
\<close>

theorem C2_compressed_skipped_amended:
  "isCompressed it \<longrightarrow>
     itemBody env deepClean owner it s =
       (Inr (), s\<lparr>st_skipped := st_skipped s @
                    [\<lparr>skip_mint = mint it, reason = ''cNFT not supported''\<rparr>]\<rparr>) \<and>
     (it \<in> set rawItems \<longrightarrow> mutateAsync env deepClean rawItems w = (Inr res, w') \<longrightarrow>
        \<lparr>skip_mint = mint it, reason = ''cNFT not supported''\<rparr> \<in> set (skipped res))"
proof (intro impI conjI)
  assume c: "isCompressed it"
  then show "itemBody env deepClean owner it s =
       (Inr (), s\<lparr>st_skipped := st_skipped s @
                    [\<lparr>skip_mint = mint it, reason = ''cNFT not supported''\<rparr>]\<rparr>)"
    by (rule itemBody_compressed)
  assume mem: "it \<in> set rawItems"
    and run: "mutateAsync env deepClean rawItems w = (Inr res, w')"
  from run obtain owner where owner: "account_publicKey env = Some owner"
    by (cases "account_publicKey env") (simp_all add: mutateAsync_def)
  obtain r st where items: "forItems env deepClean owner rawItems
      \<lparr>world = w, st_skipped = [], st_prepared = []\<rparr> = (r, st)"
    by (cases "forItems env deepClean owner rawItems \<lparr>world = w, st_skipped = [], st_prepared = []\<rparr>")
  from forItems_counts [OF items] obtain u where r: "r = Inr u"
    by blast
  from mutateAsync_unfold [OF owner items [unfolded r]] run
  have "skipped res = st_skipped st"
    by (auto split: if_splits prod.splits sum.splits)
  with forItems_compressed [OF items mem c]
  show "\<lparr>skip_mint = mint it, reason = ''cNFT not supported''\<rparr> \<in> set (skipped res)"
    by simp
qed

text \<open>
  A compressed item that carries every other hint, in an environment that counts its
  network calls; and a run over a plain item and a compressed one.
\<close>

theorem C2_compressed_skipped_amended_witness:
  "itemBody envRules True ''Owner''
     (item0\<lparr>isCompressed := True, isCoreHint := True, isPnftHint := True,
            tokenAccount := Some ''Ata'', programIdHint := Some TOKEN_PROGRAM_ID\<rparr>) state0
     = (Inr (), \<lparr>world = 0,
                 st_skipped = [\<lparr>skip_mint = ''MintA'', reason = ''cNFT not supported''\<rparr>],
                 st_prepared = []\<rparr>) \<and>
   mutateAsync env0 False [item0\<lparr>mint := ''MintB''\<rparr>, item0\<lparr>isCompressed := True\<rparr>] 0
     = (Inr \<lparr>ok = [\<lparr>ok_mint = ''MintB'', ok_sig = ''sig''\<rparr>],
             skipped = [\<lparr>skip_mint = ''MintA'', reason = ''cNFT not supported''\<rparr>]\<rparr>, 6)"
proof -
  have run: "mutateAsync env0 False [item0\<lparr>mint := ''MintB''\<rparr>, item0\<lparr>isCompressed := True\<rparr>] 0
     = (Inr \<lparr>ok = [\<lparr>ok_mint = ''MintB'', ok_sig = ''sig''\<rparr>],
             skipped = [\<lparr>skip_mint = ''MintA'', reason = ''cNFT not supported''\<rparr>]\<rparr>, 6)"
    by (simp add: run_defs)
  from C2_compressed_skipped_amended [of
      "item0\<lparr>isCompressed := True, isCoreHint := True, isPnftHint := True,
             tokenAccount := Some ''Ata'', programIdHint := Some TOKEN_PROGRAM_ID\<rparr>"
      envRules True "''Owner''" state0]
  have "itemBody envRules True ''Owner''
     (item0\<lparr>isCompressed := True, isCoreHint := True, isPnftHint := True,
            tokenAccount := Some ''Ata'', programIdHint := Some TOKEN_PROGRAM_ID\<rparr>) state0
     = (Inr (), \<lparr>world = 0,
                 st_skipped = [\<lparr>skip_mint = ''MintA'', reason = ''cNFT not supported''\<rparr>],
                 st_prepared = []\<rparr>)"
    by (simp add: item0_def state0_def)
  with run show ?thesis by simp
qed

text \<open>
  The claim as stated fails on the text of the reason, which is
  \<open>cNFT not supported\<close> and not \<open>unsupported asset kind\<close>.
\<close>

theorem C2_reason_counterexample:
  "mutateAsync env0 True [item0\<lparr>isCompressed := True\<rparr>] 0
     = (Inr \<lparr>ok = [], skipped = [\<lparr>skip_mint = ''MintA'', reason = ''cNFT not supported''\<rparr>]\<rparr>, 0) \<and>
   \<lparr>skip_mint = ''MintA'', reason = ''unsupported asset kind''\<rparr>
     \<notin> set [\<lparr>skip_mint = ''MintA'', reason = ''cNFT not supported''\<rparr>]"
  by (simp add: run_defs)

section \<open>The dispatcher: splitting an oversized group\<close>

text \<open>
  C3. When the simulation of a group of more than one item reads as oversized, the
  loop of \<open>sendGroups\<close> goes on with the queue in which the group is replaced, at the
  front, by its first \<open>floor(n/2)\<close> items and then its last \<open>ceil(n/2)\<close> items,
  both non-empty and together the group. Along any chain of such splits starting from
  a group of \<open>n\<close> items there are at most \<open>ceil(log2 n)\<close> splits and no empty group.
  The loop terminates on every queue, whatever the network and the wallet answer.
\<close>

theorem C3_split_halves_bounded:
  "(simulateIxs env owner (groupIxs grp) (batchLabel grp) w = (Inr simRes, w1) \<longrightarrow>
    simTooLarge simRes \<longrightarrow> 1 < length grp \<longrightarrow>
      sendGroupsLoop env owner okAcc (grp # queue) w =
        sendGroupsLoop env owner okAcc
          (take (length grp div 2) grp # drop (length grp div 2) grp # queue) w1 \<and>
      length (take (length grp div 2) grp) = length grp div 2 \<and>
      length (drop (length grp div 2) grp) = (length grp + 1) div 2 \<and>
      take (length grp div 2) grp \<noteq> [] \<and> drop (length grp div 2) grp \<noteq> [] \<and>
      take (length grp div 2) grp @ drop (length grp div 2) grp = grp) \<and>
   (splitChain (grp # gs) \<longrightarrow>
      length gs \<le> nat \<lceil>log 2 (real (length grp))\<rceil> \<and> (\<forall>h \<in> set gs. h \<noteq> [])) \<and>
   sendGroupsLoop_dom (env, owner, okAcc, queue, w)"
proof (intro conjI impI)
  assume sim: "simulateIxs env owner (groupIxs grp) (batchLabel grp) w = (Inr simRes, w1)"
    and big: "simTooLarge simRes" "1 < length grp"
  then show "sendGroupsLoop env owner okAcc (grp # queue) w =
        sendGroupsLoop env owner okAcc
          (take (length grp div 2) grp # drop (length grp div 2) grp # queue) w1"
    by (simp add: sendGroupsLoop_step [OF sim] splitHalves_def Let_def)
  show "length (take (length grp div 2) grp) = length grp div 2"
    using splitHalves_lengths [of grp] by (simp add: splitHalves_def Let_def)
  show "length (drop (length grp div 2) grp) = (length grp + 1) div 2"
    using splitHalves_lengths [of grp] by (simp add: splitHalves_def Let_def)
  show "take (length grp div 2) grp \<noteq> []"
    using splitHalves_nonempty [OF big(2)] by (simp add: splitHalves_def Let_def)
  show "drop (length grp div 2) grp \<noteq> []"
    using splitHalves_nonempty [OF big(2)] by (simp add: splitHalves_def Let_def)
  show "take (length grp div 2) grp @ drop (length grp div 2) grp = grp"
    by simp
next
  assume "splitChain (grp # gs)"
  then show "length gs \<le> nat \<lceil>log 2 (real (length grp))\<rceil>"
    by (rule splitChain_log)
next
  assume "splitChain (grp # gs)"
  then show "\<forall>h \<in> set gs. h \<noteq> []"
    by (rule splitChain_nonempty)
next
  show "sendGroupsLoop_dom (env, owner, okAcc, queue, w)"
    by (rule sendGroupsLoop_total)
qed

text \<open>
  A group of three items that is too large for one transaction: it is split into one
  item and two, which are then sent; and a chain of two splits from three items.
\<close>

theorem C3_split_halves_bounded_witness:
  "sendGroupsLoop envSize ''Owner'' [] [[gA, gB, gC]] 0
     = sendGroupsLoop envSize ''Owner'' [] [[gA], [gB, gC]] 2 \<and>
   sendGroupsLoop envSize ''Owner'' [] [[gA, gB, gC]] 0
     = (Inr [\<lparr>ok_mint = ''MintA'', ok_sig = ''sig''\<rparr>, \<lparr>ok_mint = ''MintB'', ok_sig = ''sig''\<rparr>,
             \<lparr>ok_mint = ''MintC'', ok_sig = ''sig''\<rparr>], 10) \<and>
   splitChain [[gA, gB, gC], [gB, gC], [gC]] \<and>
   length [[gB, gC], [gC]] \<le> nat \<lceil>log 2 (real (length [gA, gB, gC]))\<rceil>"
proof -
  have sim: "simulateIxs envSize ''Owner'' (groupIxs [gA, gB, gC]) (batchLabel [gA, gB, gC]) 0
      = (Inr (SimFail (JStr ''Transaction too large'') (Some ''Transaction too large'') (Some [])), 2)"
    by (simp add: sample_defs burn_defs io_defs Let_def)
  have big: "simTooLarge (SimFail (JStr ''Transaction too large'') (Some ''Transaction too large'') (Some []))"
    by (simp add: simTooLarge_def tooLarge_sample)
  have chain: "splitChain [[gA, gB, gC], [gB, gC], [gC]]"
    by (simp add: splitHalves_def)
  note t = C3_split_halves_bounded [of envSize "''Owner''" "[gA, gB, gC]" 0
      "SimFail (JStr ''Transaction too large'') (Some ''Transaction too large'') (Some [])" 2
      "[]" "[]" "[[gB, gC], [gC]]"]
  from t sim big have step: "sendGroupsLoop envSize ''Owner'' [] [[gA, gB, gC]] 0
     = sendGroupsLoop envSize ''Owner'' [] [[gA], [gB, gC]] 2"
    by simp
  have run: "sendGroupsLoop envSize ''Owner'' [] [[gA], [gB, gC]] 2
     = (Inr [\<lparr>ok_mint = ''MintA'', ok_sig = ''sig''\<rparr>, \<lparr>ok_mint = ''MintB'', ok_sig = ''sig''\<rparr>,
             \<lparr>ok_mint = ''MintC'', ok_sig = ''sig''\<rparr>], 10)"
    by (simp add: sample_defs burn_defs io_defs Let_def simTooLarge_def splitHalves_def
        sendGroupsLoop.simps)
  from t chain have "length [[gB, gC], [gC]] \<le> nat \<lceil>log 2 (real (length [gA, gB, gC]))\<rceil>"
    by blast
  with step run chain show ?thesis by simp
qed

section \<open>The selector: rule-protected assets\<close>

text \<open>
  C4. The candidates of a rule-protected asset are tried in the order burn with
  rules, burn without rules, unlock then burn with rules, unlock then burn without
  rules. A candidate that exists and is not empty is chosen as soon as its simulation
  is accepted, the candidates before it having been rejected; so burn with rules is
  chosen when it exists and its simulation is accepted. When every candidate is
  rejected, the choice is the first candidate of that order that exists, with no
  further simulation.
\<close>

theorem C4_pnft_priority:
  "map fst (candOrder v) =
     [''burn only (with rules)'', ''burn only (no rules)'',
      ''unlock+burn (with rules)'', ''unlock+burn (no rules)''] \<and>
   map snd (candOrder v) =
     [burnOnlyWithRules v, Some (burnOnly v), unlockThenBurnWithRules v,
      Some (unlockThenBurn v)] \<and>
   (buildPnftVariants env owner (mint it) tokenAcct (collectionMintHint it) w0 = (Inr (Some v), w) \<longrightarrow>
      selectPnftIxs env owner it tokenAcct w0 = pickPnft env owner v w) \<and>
   (candOrder v = pre @ (nm, Some c) # post \<longrightarrow> c \<noteq> [] \<longrightarrow>
    allRejected env owner pre w = Some w1 \<longrightarrow>
    simulateIxs env owner (budgetIxs @ c) (''pnft-pick '' @ nm) w1 = (Inr SimOk, w2) \<longrightarrow>
      pickPnft env owner v w = (Inr (Some c), w2)) \<and>
   (burnOnlyWithRules v = Some c \<longrightarrow> c \<noteq> [] \<longrightarrow>
    simulateIxs env owner (budgetIxs @ c) ''pnft-pick burn only (with rules)'' w = (Inr SimOk, w2) \<longrightarrow>
      pickPnft env owner v w = (Inr (Some c), w2)) \<and>
   (allRejected env owner (candOrder v) w = Some w1 \<longrightarrow>
      pickPnft env owner v w = (Inr (pnftFallback v), w1) \<and>
      List.find (\<lambda>c. c \<noteq> None) (map snd (candOrder v)) = Some (pnftFallback v))"
proof (intro conjI impI)
  show "map fst (candOrder v) =
     [''burn only (with rules)'', ''burn only (no rules)'',
      ''unlock+burn (with rules)'', ''unlock+burn (no rules)'']"
    by (simp add: candOrder_def)
  show "map snd (candOrder v) =
     [burnOnlyWithRules v, Some (burnOnly v), unlockThenBurnWithRules v,
      Some (unlockThenBurn v)]"
    by (simp add: candOrder_def)
next
  assume "buildPnftVariants env owner (mint it) tokenAcct (collectionMintHint it) w0 = (Inr (Some v), w)"
  then show "selectPnftIxs env owner it tokenAcct w0 = pickPnft env owner v w"
    by (simp add: selectPnftIxs_def bindE_def)
next
  assume "candOrder v = pre @ (nm, Some c) # post" and "c \<noteq> []"
    and "allRejected env owner pre w = Some w1"
    and "simulateIxs env owner (budgetIxs @ c) (''pnft-pick '' @ nm) w1 = (Inr SimOk, w2)"
  then show "pickPnft env owner v w = (Inr (Some c), w2)"
    by (rule pickPnft_accept)
next
  assume r: "burnOnlyWithRules v = Some c" and ne: "c \<noteq> []"
    and sim: "simulateIxs env owner (budgetIxs @ c) ''pnft-pick burn only (with rules)'' w = (Inr SimOk, w2)"
  show "pickPnft env owner v w = (Inr (Some c), w2)"
    using pickPnft_accept [of v "[]" "''burn only (with rules)''" c "tl (candOrder v)" env owner w w w2]
      r ne sim
    by (simp add: candOrder_def)
next
  assume "allRejected env owner (candOrder v) w = Some w1"
  then show "pickPnft env owner v w = (Inr (pnftFallback v), w1)"
    by (rule pickPnft_fallback)
next
  show "List.find (\<lambda>c. c \<noteq> None) (map snd (candOrder v)) = Some (pnftFallback v)"
    by (rule pnftFallback_first)
qed

text \<open>
  One asset with a rule set, in three environments: every simulation accepted, only
  the burns with rules rejected, every simulation rejected; and the item prepared in
  the second.
\<close>

theorem C4_pnft_priority_witness:
  "pickPnft env0 ''Owner'' variantsRules 0
     = (Inr (Some [UmiInstruction ''burnV1 with rules'']), 2) \<and>
   pickPnft envRules ''Owner'' variantsRules 0 = (Inr (Some [UmiInstruction ''burnV1'']), 4) \<and>
   allRejected envLogs ''Owner'' (candOrder variantsRules) 0 = Some 8 \<and>
   pickPnft envLogs ''Owner'' variantsRules 0
     = (Inr (Some [UmiInstruction ''burnV1 with rules'']), 8) \<and>
   itemBody envRules True ''Owner'' item0 state0
     = (Inr (), \<lparr>world = 7, st_skipped = [],
                    st_prepared = [\<lparr>p_mint = ''MintA'', p_ixs = [UmiInstruction ''burnV1''],
                                    p_kind = Pnft\<rparr>]\<rparr>)"
proof -
  have all_ok: "pickPnft env0 ''Owner'' variantsRules 0
     = (Inr (Some [UmiInstruction ''burnV1 with rules'']), 2)"
    using C4_pnft_priority [of variantsRules env0 "''Owner''" item0 "''ata''" 0 0 "[]"
        "''burn only (with rules)''" "[UmiInstruction ''burnV1 with rules'']"
        "tl (candOrder variantsRules)" 0 2]
    by (simp add: sample_defs burn_defs io_defs Let_def)
  have second: "pickPnft envRules ''Owner'' variantsRules 0
     = (Inr (Some [UmiInstruction ''burnV1'']), 4)"
    using C4_pnft_priority [of variantsRules envRules "''Owner''" item0 "''ata''" 0 0
        "[(''burn only (with rules)'', Some [UmiInstruction ''burnV1 with rules''])]"
        "''burn only (no rules)''" "[UmiInstruction ''burnV1'']"
        "drop 2 (candOrder variantsRules)" 2 4]
    by (simp add: sample_defs burn_defs io_defs Let_def)
  have rej: "allRejected envLogs ''Owner'' (candOrder variantsRules) 0 = Some 8"
    by (simp add: sample_defs burn_defs io_defs Let_def)
  have none: "pickPnft envLogs ''Owner'' variantsRules 0
     = (Inr (Some [UmiInstruction ''burnV1 with rules'']), 8)"
    using C4_pnft_priority [of variantsRules envLogs "''Owner''" item0 "''ata''" 0 0 "[]"
        "''burn only (with rules)''" "[UmiInstruction ''burnV1 with rules'']"
        "tl (candOrder variantsRules)" 8 2] rej
    by (simp add: pnftFallback_def orElse_def variantsRules_def)
  have item: "itemBody envRules True ''Owner'' item0 state0
     = (Inr (), \<lparr>world = 7, st_skipped = [],
                    st_prepared = [\<lparr>p_mint = ''MintA'', p_ixs = [UmiInstruction ''burnV1''],
                                    p_kind = Pnft\<rparr>]\<rparr>)"
    by (simp add: sample_defs burn_defs io_defs Let_def)
  from all_ok second rej none item show ?thesis by simp
qed

section \<open>The simulator\<close>

text \<open>
  C5 (amended). \<open>simulateIxs\<close> never throws: it always returns a result, and an
  exception of its \<open>try\<close> block becomes a failed result carrying the exception and
  its text, with no log. A failed result is read as oversized by the dispatcher
  exactly when its error text contains one of the six known phrases. A failure that
  the RPC reports yields a failed result carrying the raw error, its text and all the
  log lines the RPC returned, not only the last twelve.
\<close>

theorem C5_simulate_total_classified:
  "(\<exists>r w'. simulateIxs env owner ixs label w = (Inr r, w')) \<and>
   (\<forall>e w'. simulateTry env owner ixs w = (Inl e, w') \<longrightarrow>
      simulateIxs env owner ixs label w = (Inr (SimFail e (Some (stringifyErr e)) None), w')) \<and>
   (\<forall>e logs. simTooLarge (SimFail e (Some (stringifyErr e)) logs) \<longleftrightarrow>
      (\<exists>p \<in> set oversizedPhrases. str_includes (stringifyErr e) p)) \<and>
   (\<forall>bh w1 sim w2.
      getLatestBlockhashAndContext env ''processed'' w = (Inr bh, w1) \<longrightarrow>
      compileToV0Message env
        \<lparr>payerKey = owner, recentBlockhash = ctx_blockhash bh, instructions = ixs\<rparr> = None \<longrightarrow>
      simulateTransaction env
        \<lparr>payerKey = owner, recentBlockhash = ctx_blockhash bh, instructions = ixs\<rparr> w1
        = (Inr sim, w2) \<longrightarrow>
      truthy (sv_err sim) \<longrightarrow>
      simulateIxs env owner ixs label w =
        (Inr (SimFail (sv_err sim) (Some (stringifyErr (sv_err sim)))
           (Some (case sv_logs sim of Some l \<Rightarrow> l | None \<Rightarrow> []))), w2))"
proof (intro conjI allI impI)
  show "\<exists>r w'. simulateIxs env owner ixs label w = (Inr r, w')"
    by (rule simulateIxs_returns)
next
  fix e w'
  assume "simulateTry env owner ixs w = (Inl e, w')"
  then show "simulateIxs env owner ixs label w = (Inr (SimFail e (Some (stringifyErr e)) None), w')"
    by (rule simulateIxs_of_try_Inl)
next
  fix e logs
  show "simTooLarge (SimFail e (Some (stringifyErr e)) logs) \<longleftrightarrow>
      (\<exists>p \<in> set oversizedPhrases. str_includes (stringifyErr e) p)"
    by (simp only: simTooLarge_fail isTooLargeErr_phrases)
next
  fix bh w1 sim w2
  assume "getLatestBlockhashAndContext env ''processed'' w = (Inr bh, w1)"
    and "compileToV0Message env
        \<lparr>payerKey = owner, recentBlockhash = ctx_blockhash bh, instructions = ixs\<rparr> = None"
    and "simulateTransaction env
        \<lparr>payerKey = owner, recentBlockhash = ctx_blockhash bh, instructions = ixs\<rparr> w1
        = (Inr sim, w2)"
    and "truthy (sv_err sim)"
  then have "simulateTry env owner ixs w =
     (Inr (SimFail (sv_err sim) (Some (stringifyErr (sv_err sim)))
        (Some (case sv_logs sim of Some l \<Rightarrow> l | None \<Rightarrow> []))), w2)"
    by (rule simulateTry_rpc_error)
  then show "simulateIxs env owner ixs label w =
        (Inr (SimFail (sv_err sim) (Some (stringifyErr (sv_err sim)))
           (Some (case sv_logs sim of Some l \<Rightarrow> l | None \<Rightarrow> []))), w2)"
    by (rule simulateIxs_of_try_Inr)
qed

theorem C5_simulate_total_classified_witness:
  "simulateIxs (envLogs\<lparr>getLatestBlockhashAndContext := (\<lambda>c w. (Inl (JStr ''fetch failed''), Suc w))\<rparr>)
     ''Owner'' budgetIxs ''core-pick'' 0
     = (Inr (SimFail (JStr ''fetch failed'') (Some ''fetch failed'') None), 1) \<and>
   simulateIxs envLogs ''Owner'' budgetIxs ''core-pick'' 0
     = (Inr (SimFail (JStr ''AccountNotFound'') (Some ''AccountNotFound'')
          (Some (replicate 13 ''Program log: burn''))), 2)"
  using C5_simulate_total_classified [of envLogs "''Owner''" budgetIxs "''core-pick''" 0]
    C5_simulate_total_classified [of "envLogs\<lparr>getLatestBlockhashAndContext := (\<lambda>c w. (Inl (JStr ''fetch failed''), Suc w))\<rparr>" "''Owner''" budgetIxs "''core-pick''" 0]
  by (simp add: sample_defs simulateTry_def bindE_def)

text \<open>
  The claim as stated fails: a simulation reported with thirteen log lines gives a result
  that carries all thirteen.
\<close>

theorem C5_logs_counterexample:
  "simulateIxs envLogs ''Owner'' [] ''legacy-tm-check'' 0
     = (Inr (SimFail (JStr ''AccountNotFound'') (Some ''AccountNotFound'')
          (Some (replicate 13 ''Program log: burn''))), 2) \<and>
   \<not> length (replicate 13 ''Program log: burn'') \<le> 12"
  by (simp add: sample_defs simulateIxs_def simulateTry_def compileTx_def io_defs Let_def)

section \<open>The dispatcher: a failed submission\<close>

text \<open>
  C6. When the submission of a group that is not split fails with \<open>e\<close>, the loop of
  \<open>sendGroups\<close> goes on with the rest of the queue and the same list of successes
  if the text of \<open>e\<close> reads as a refusal of the user, and otherwise stops at once
  with \<open>e\<close>, the queue left as it is; \<open>mutateAsync\<close> rethrows what \<open>sendGroups\<close>
  throws, and the \<open>skipped\<close> list it returns is the one the preparation built, so
  that the dispatcher adds nothing to it.
\<close>

theorem C6_decline_skips_other_aborts:
  "(\<forall>simRes w1 e w2.
      simulateIxs env owner (groupIxs grp) (batchLabel grp) w = (Inr simRes, w1) \<longrightarrow>
      \<not> (simTooLarge simRes \<and> 1 < length grp) \<longrightarrow>
      submitGroup env owner (groupIxs grp) w1 = (Inl e, w2) \<longrightarrow>
      sendGroupsLoop env owner okAcc (grp # queue) w =
        (if isUserDecline e then sendGroupsLoop env owner okAcc queue w2 else (Inl e, w2))) \<and>
   (\<forall>u s e w2.
      account_publicKey env = Some owner \<longrightarrow>
      forItems env deepClean owner rawItems \<lparr>world = w0, st_skipped = [], st_prepared = []\<rparr>
        = (Inr u, s) \<longrightarrow>
      planGroups (st_prepared s) \<noteq> [] \<longrightarrow>
      (sendGroups env owner (planGroups (st_prepared s)) (world s) = (Inl e, w2) \<longrightarrow>
         mutateAsync env deepClean rawItems w0 = (Inl e, w2)) \<and>
      (\<forall>okList. sendGroups env owner (planGroups (st_prepared s)) (world s) = (Inr okList, w2) \<longrightarrow>
         mutateAsync env deepClean rawItems w0
           = (Inr \<lparr>ok = okList, skipped = st_skipped s\<rparr>, w2)))"
proof (intro conjI allI impI)
  fix simRes w1 e w2
  assume sim: "simulateIxs env owner (groupIxs grp) (batchLabel grp) w = (Inr simRes, w1)"
    and "\<not> (simTooLarge simRes \<and> 1 < length grp)"
    and "submitGroup env owner (groupIxs grp) w1 = (Inl e, w2)"
  then show "sendGroupsLoop env owner okAcc (grp # queue) w =
        (if isUserDecline e then sendGroupsLoop env owner okAcc queue w2 else (Inl e, w2))"
    by (auto simp: sendGroupsLoop_step [OF sim])
next
  fix u s e w2
  assume "account_publicKey env = Some owner"
    and "forItems env deepClean owner rawItems \<lparr>world = w0, st_skipped = [], st_prepared = []\<rparr>
        = (Inr u, s)"
    and "planGroups (st_prepared s) \<noteq> []"
    and "sendGroups env owner (planGroups (st_prepared s)) (world s) = (Inl e, w2)"
  then show "mutateAsync env deepClean rawItems w0 = (Inl e, w2)"
    by (simp add: mutateAsync_unfold)
next
  fix u s e w2 okList
  assume "account_publicKey env = Some owner"
    and "forItems env deepClean owner rawItems \<lparr>world = w0, st_skipped = [], st_prepared = []\<rparr>
        = (Inr u, s)"
    and "planGroups (st_prepared s) \<noteq> []"
    and "sendGroups env owner (planGroups (st_prepared s)) (world s) = (Inr okList, w2)"
  then show "mutateAsync env deepClean rawItems w0
           = (Inr \<lparr>ok = okList, skipped = st_skipped s\<rparr>, w2)"
    by (simp add: mutateAsync_unfold)
qed

text \<open>
  The user declines the first of two groups and signs the second; and a transport
  error on the first group ends the run before the second is looked at.
\<close>

theorem C6_decline_skips_other_aborts_witness:
  "sendGroupsLoop envDeclineFirst ''Owner'' [] [[gA], [gB]] 0
     = (Inr [\<lparr>ok_mint = ''MintB'', ok_sig = ''sig''\<rparr>], 9) \<and>
   sendGroupsLoop envFatal ''Owner'' [] [[gA], [gB]] 0 = (Inl fatalErr, 5)"
  using C6_decline_skips_other_aborts [of envDeclineFirst "''Owner''" "[gA]" 0 "[]" "[[gB]]"]
    C6_decline_skips_other_aborts [of envFatal "''Owner''" "[gA]" 0 "[]" "[[gB]]"]
  by (simp add: sample_defs burn_defs io_defs Let_def simTooLarge_def sendGroupsLoop.simps
      isUserDecline_declineErr not_isUserDecline_fatalErr)

section \<open>The dispatcher: a failed simulation\<close>



section \<open>The token program of an asset\<close>

text \<open>
  C8 (amended). The program variant used for an asset that is neither compressed nor
  Core is the hint of the caller when there is one, and then nothing is read on
  chain; only without a hint is it read from the owner of the mint account: Token-2022
  when the owner is the Token-2022 program, the classic Token program otherwise, and
  an exception when the account is missing or the read fails.
\<close>

theorem C8_hint_decides_variant:
  "(\<forall>p. programIdHint it = Some p \<longrightarrow> resolveProgramId env it w = (Inr p, w)) \<and>
   (programIdHint it = None \<longrightarrow>
      resolveProgramId env it w =
        (case getAccountInfo env (mint it) w of
           (Inl e, w1) \<Rightarrow> (Inl e, w1)
         | (Inr None, w1) \<Rightarrow> (Inl (mkError (''Mint not found: '' @ mint it)), w1)
         | (Inr (Some info), w1) \<Rightarrow>
             (Inr (if ai_owner info = TOKEN_2022_PROGRAM_ID then TOKEN_2022_PROGRAM_ID
                   else TOKEN_PROGRAM_ID), w1)))"
  by (simp add: resolveProgramId_def getMintProgramId_def bindE_def returnE_def throwE_def
      split: prod.splits sum.splits option.splits)

text \<open>
  With a hint the variant is the hint, whatever it is; without one it is read on chain.
\<close>

theorem C8_hint_decides_variant_witness:
  "resolveProgramId env0 (item0\<lparr>programIdHint := Some ''AnyProgram''\<rparr>) 0 = (Inr ''AnyProgram'', 0) \<and>
   resolveProgramId env0 item0 0 = (Inr TOKEN_2022_PROGRAM_ID, 1)"
  using C8_hint_decides_variant [of "item0\<lparr>programIdHint := Some ''AnyProgram''\<rparr>" env0 0]
    C8_hint_decides_variant [of item0 env0 0]
  by (simp add: sample_defs)

text \<open>
  The claim as stated fails: for a mint owned on chain by the Token-2022 program, the
  hint of the classic Token program gives the classic program, also in the
  instructions prepared, and no hint gives Token-2022.
\<close>

theorem C8_hint_counterexample:
  "fst (resolveProgramId env0 (item0\<lparr>programIdHint := Some TOKEN_PROGRAM_ID\<rparr>) 0)
     = Inr TOKEN_PROGRAM_ID \<and>
   fst (resolveProgramId env0 (item0\<lparr>programIdHint := None\<rparr>) 0) = Inr TOKEN_2022_PROGRAM_ID \<and>
   TOKEN_PROGRAM_ID \<noteq> TOKEN_2022_PROGRAM_ID \<and>
   st_prepared (snd (itemBody env0 False ''Owner''
       (item0\<lparr>programIdHint := Some TOKEN_PROGRAM_ID\<rparr>) state0))
     = [\<lparr>p_mint = ''MintA'',
         p_ixs = [BurnInstruction ''ata'' ''MintA'' ''Owner'' 1 TOKEN_PROGRAM_ID,
                  CloseAccountInstruction ''ata'' ''Owner'' ''Owner'' TOKEN_PROGRAM_ID],
         p_kind = Spl\<rparr>]"
  by (simp add: sample_defs burn_defs io_defs Let_def TOKEN_PROGRAM_ID_def TOKEN_2022_PROGRAM_ID_def)

section \<open>The Core builder\<close>

text \<open>
  C9 (amended). When \<open>coreFetchAsset\<close> throws, \<open>buildCoreBurnVariants\<close> throws the
  same value; for an item with the Core hint, \<open>mutateAsync\<close> catches it and records
  the item as skipped with the reason \<open>core build failed: ...\<close>. An empty result
  of the builder is recorded as skipped with the reason
  \<open>core burn: no viable instructions\<close>. In both cases the body of the loop returns
  normally and no other builder runs: the world is as the Core builder left it.
\<close>

theorem C9_core_failure_is_skipped:
  "(\<forall>e w1. coreFetchAsset env (mint it) (world s) = (Inl e, w1) \<longrightarrow>
      buildCoreBurnVariants env owner (mint it) (world s) = (Inl e, w1) \<and>
      (\<not> isCompressed it \<longrightarrow> isCoreHint it \<longrightarrow>
         itemBody env deepClean owner it s =
           (Inr (), s\<lparr>world := w1,
                      st_skipped := st_skipped s @
                        [\<lparr>skip_mint = mint it,
                          reason = ''core build failed: '' @ messageOrUnknown e\<rparr>]\<rparr>))) \<and>
   (\<forall>v w1. buildCoreBurnVariants env owner (mint it) (world s) = (Inr v, w1) \<longrightarrow>
      withCollection v = [] \<longrightarrow> withoutCollection v = [] \<longrightarrow>
      \<not> isCompressed it \<longrightarrow> isCoreHint it \<longrightarrow>
      itemBody env deepClean owner it s =
        (Inr (), s\<lparr>world := w1,
                   st_skipped := st_skipped s @
                     [\<lparr>skip_mint = mint it, reason = ''core burn: no viable instructions''\<rparr>]\<rparr>))"
proof (intro conjI allI impI)
  fix e w1
  assume f: "coreFetchAsset env (mint it) (world s) = (Inl e, w1)"
  then show b: "buildCoreBurnVariants env owner (mint it) (world s) = (Inl e, w1)"
    by (simp add: buildCoreBurnVariants_def bindE_def)
  assume "\<not> isCompressed it" and "isCoreHint it"
  then show "itemBody env deepClean owner it s =
           (Inr (), s\<lparr>world := w1,
                      st_skipped := st_skipped s @
                        [\<lparr>skip_mint = mint it,
                          reason = ''core build failed: '' @ messageOrUnknown e\<rparr>]\<rparr>)"
    using b by (simp add: itemBody_def coreBranch_def tryCatch_def bindE_def liftW_def pushSkipped_def)
next
  fix v w1
  assume "buildCoreBurnVariants env owner (mint it) (world s) = (Inr v, w1)"
    and "withCollection v = []" and "withoutCollection v = []"
    and  "\<not> isCompressed it" and "isCoreHint it"
  then show "itemBody env deepClean owner it s =
        (Inr (), s\<lparr>world := w1,
                   st_skipped := st_skipped s @
                     [\<lparr>skip_mint = mint it, reason = ''core burn: no viable instructions''\<rparr>]\<rparr>)"
    by (simp add: itemBody_def coreBranch_def tryCatch_def bindE_def liftW_def pushSkipped_def)
qed

text \<open>
  A missing Core record, and a Core builder that yields no instruction.
\<close>

theorem C9_core_failure_is_skipped_witness:
  "itemBody env0 True ''Owner'' (item0\<lparr>isCoreHint := True, mint := ''MintB''\<rparr>) state0 =
     (Inr (), \<lparr>world = 1,
               st_skipped = [\<lparr>skip_mint = ''MintB'', reason = ''core build failed: asset not found''\<rparr>],
               st_prepared = []\<rparr>) \<and>
   itemBody (env0\<lparr>coreFetchAsset := (\<lambda>a w. (Inr ''asset'', Suc w)), coreBurn := (\<lambda>a c. Inr [])\<rparr>)
       True ''Owner'' (item0\<lparr>isCoreHint := True\<rparr>) state0 =
     (Inr (), \<lparr>world = 1,
               st_skipped = [\<lparr>skip_mint = ''MintA'', reason = ''core burn: no viable instructions''\<rparr>],
               st_prepared = []\<rparr>)"
  using C9_core_failure_is_skipped [of env0 "item0\<lparr>isCoreHint := True, mint := ''MintB''\<rparr>" state0 "''Owner''" True]
    C9_core_failure_is_skipped [of "env0\<lparr>coreFetchAsset := (\<lambda>a w. (Inr ''asset'', Suc w)), coreBurn := (\<lambda>a c. Inr [])\<rparr>" "item0\<lparr>isCoreHint := True\<rparr>" state0 "''Owner''" True]
  by (simp add: sample_defs mkError_def buildCoreBurnVariants_def io_defs)

text \<open>
  The claim as stated fails: with a missing record the build step throws, and the item
  is recorded as skipped.
\<close>

theorem C9_core_missing_counterexample:
  "buildCoreBurnVariants env0 ''Owner'' ''MintA'' 0 = (Inl (mkError ''asset not found''), 1) \<and>
   itemBody env0 True ''Owner'' (item0\<lparr>isCoreHint := True\<rparr>) state0 =
     (Inr (), \<lparr>world = 1,
               st_skipped = [\<lparr>skip_mint = ''MintA'', reason = ''core build failed: asset not found''\<rparr>],
               st_prepared = []\<rparr>)"
  by (simp add: sample_defs burn_defs io_defs mkError_def)

section \<open>Properties of the enrichment merge\<close>

lemma byId_snoc: "byId (es @ [e]) = (byId es)(asset_id e \<mapsto> e)"
  by (simp add: byId_def)

lemma byId_Nil: "byId [] = Map.empty"
  by (simp add: byId_def)

lemma byId_key: "byId enriched k = Some e \<Longrightarrow> asset_id e = k"
proof (induction enriched rule: rev_induct)
  case Nil
  then show ?case by (simp add: byId_Nil)
next
  case (snoc x xs)
  then show ?case by (cases "k = asset_id x") (simp_all add: byId_snoc)
qed

lemma byId_None: "k \<notin> asset_id ` set enriched \<Longrightarrow> byId enriched k = None"
proof (induction enriched rule: rev_induct)
  case Nil
  then show ?case by (simp add: byId_Nil)
next
  case (snoc x xs)
  then show ?case by (simp add: byId_snoc)
qed

lemma enrichOne_id: "asset_id (enrichOne res a) = asset_id a"
  by (simp add: enrichOne_def Let_def split: sum.splits)

lemma enrichSlice_ids: "map asset_id (enrichSlice resolve slice) = map asset_id slice"
  by (simp add: enrichSlice_def enrichOne_id)

text \<open>
  C10. The merge of an enriched batch into the current list keeps the length of the
  list and the order of its ids, and leaves every asset whose id is not an id of the
  batch as it was; the batch enriched from a slice has the ids of the slice.
\<close>

theorem C10_merge_by_id_frame:
  "length (mergeEnriched enriched cur) = length cur \<and>
   map asset_id (mergeEnriched enriched cur) = map asset_id cur \<and>
   (\<forall>i < length cur. asset_id (cur ! i) \<notin> asset_id ` set enriched \<longrightarrow>
        mergeEnriched enriched cur ! i = cur ! i) \<and>
   map asset_id (enrichSlice resolve slice) = map asset_id slice"
proof -
  have len: "length (mergeEnriched enriched cur) = length cur"
    by (simp add: mergeEnriched_def)
  have ids: "map asset_id (mergeEnriched enriched cur) = map asset_id cur"
    unfolding mergeEnriched_def
    by (auto split: option.splits dest: byId_key)
  have frame: "\<forall>i < length cur. asset_id (cur ! i) \<notin> asset_id ` set enriched \<longrightarrow>
        mergeEnriched enriched cur ! i = cur ! i"
    unfolding mergeEnriched_def by (simp add: byId_None)
  show ?thesis by (intro conjI len ids frame enrichSlice_ids)
qed

theorem C10_merge_by_id_frame_witness:
  "(let a = \<lparr>asset_id = ''A'', content = None\<rparr>;
        b = \<lparr>asset_id = ''B'', content = None\<rparr>;
        b' = \<lparr>asset_id = ''B'', content = Some \<lparr>json_uri = Some ''u'', metadata_name = Some ''n'', links_image = None\<rparr>\<rparr>
    in (0::nat) < length [a, b] \<and> asset_id ([a, b] ! 0) \<notin> asset_id ` set [b'] \<and>
       mergeEnriched [b'] [a, b] ! 0 = [a, b] ! 0 \<and>
       mergeEnriched [b'] [a, b] = [a, b'])"
  using C10_merge_by_id_frame [of "[\<lparr>asset_id = ''B'', content = Some \<lparr>json_uri = Some ''u'', metadata_name = Some ''n'', links_image = None\<rparr>\<rparr>]"
      "[\<lparr>asset_id = ''A'', content = None\<rparr>, \<lparr>asset_id = ''B'', content = None\<rparr>]"]
  by (simp add: mergeEnriched_def byId_def Let_def)

end
